theory Spec2Isabelle
  imports Main
begin

unbundle bit_operations_syntax

section \<open>Python values used by the program\<close>

text \<open>
  A Python \<open>str\<close> is a sequence of code points. The texts read from the input file and
  everything derived from them are modelled as \<open>pystr\<close>, the list of the code points as
  natural numbers, so that every text the program can read is a value of the model. The
  texts of the export layer are modelled as \<open>string\<close>, where the character with code \<open>n\<close>
  stands for the code point \<open>n\<close>. \<open>str_of\<close> gives the code points of a literal. The
  functions of the source that start with an underscore (\<open>_validate_number\<close>,
  \<open>_hash_number\<close>, ...) keep their names without it.
\<close>

type_synonym pystr = "nat list"

definition code :: "char \<Rightarrow> nat" where
  "code c = of_char c"

definition str_of :: "string \<Rightarrow> pystr" where
  "str_of s = map code s"

text \<open>
  Every \<open>raise\<close> of the program is a value of \<open>error\<close>; the constructor carries what the
  source interpolates into the message.
  \<^item> \<open>EmptyNumber\<close>: \<open>ValueError("Phone number is empty.")\<close>
  \<^item> \<open>NonDigitNumber raw\<close>: \<open>ValueError("Invalid phone number 'raw'. Only digits are allowed.")\<close>
  \<^item> \<open>TooShortNumber raw\<close>: \<open>ValueError("Phone number 'raw' is too short to be valid.")\<close>
  \<^item> \<open>TooLongNumber raw\<close>: \<open>ValueError("Phone number 'raw' is too long to be valid.")\<close>
  \<^item> \<open>UnicodeEncodeError\<close>: of \<open>str.encode("utf-8")\<close> on a text with a surrogate code point
  \<^item> \<open>IntValueError s\<close>: the \<open>ValueError\<close> of \<open>int(s, 16)\<close>
  \<^item> \<open>ZeroDivisionError\<close>: the remainder by the length of an empty list
  \<^item> \<open>DateOverflow\<close>: the \<open>OverflowError\<close> of \<open>datetime - timedelta\<close>
  \<^item> \<open>UnsupportedFormat fmt\<close>: \<open>ValueError("Unsupported export format 'fmt'. ...")\<close>
  \<^item> \<open>UnexpectedFormat fmt\<close>: \<open>ValueError("Unexpected export format 'fmt'.")\<close>
  \<^item> \<open>MissingOpenpyxl\<close>: the \<open>RuntimeError\<close> raised when \<open>openpyxl\<close> cannot be imported
  \<^item> \<open>IllegalCharacterError\<close>: raised by \<open>openpyxl\<close> for a cell text with a control character
  \<^item> \<open>EmptyName\<close>: the \<open>ValueError\<close> of \<open>Path.with_suffix\<close> on a path with no name
  \<^item> \<open>ExtraFields\<close>: the \<open>ValueError\<close> of \<open>csv.DictWriter\<close> for a key that is no field name
  \<^item> \<open>NotADirectoryError\<close>, \<open>IsADirectoryError\<close>, \<open>FileNotFoundError\<close>: of the file system
\<close>

datatype error =
    EmptyNumber
  | NonDigitNumber pystr
  | TooShortNumber pystr
  | TooLongNumber pystr
  | UnicodeEncodeError
  | IntValueError string
  | ZeroDivisionError
  | DateOverflow
  | UnsupportedFormat string
  | UnexpectedFormat string
  | MissingOpenpyxl
  | IllegalCharacterError
  | EmptyName
  | ExtraFields
  | NotADirectoryError
  | IsADirectoryError
  | FileNotFoundError

text \<open>
  \<open>str.isspace\<close> for one code point: the white space of Python is U+0009..U+000D,
  U+001C..U+001F, U+0020, U+0085, U+00A0, U+1680, U+2000..U+200A, U+2028, U+2029,
  U+202F, U+205F and U+3000.
\<close>

definition isspace :: "nat \<Rightarrow> bool" where
  "isspace c = (c \<in> {9, 10, 11, 12, 13, 28, 29, 30, 31, 32, 133, 160, 5760,
                      8232, 8233, 8239, 8287, 12288} \<or> (8192 \<le> c \<and> c \<le> 8202))"

text \<open>\<open>str.lstrip()\<close>, \<open>str.rstrip()\<close> and \<open>str.strip()\<close> with no argument.\<close>

definition lstrip :: "pystr \<Rightarrow> pystr" where
  "lstrip s = dropWhile isspace s"

definition rstrip :: "pystr \<Rightarrow> pystr" where
  "rstrip s = rev (dropWhile isspace (rev s))"

definition strip :: "pystr \<Rightarrow> pystr" where
  "strip s = rstrip (lstrip s)"

text \<open>
  The pattern \<open>\d\<close> on a \<open>str\<close>, compiled with no flag, matches every Unicode decimal
  digit (general category Nd), not only \<open>0\<close> to \<open>9\<close>. The decimal digits come in runs of
  ten, one run for each script; \<open>decimal_starts\<close> lists the first code point of each run
  of Unicode 14.0, the version of the character database of Python 3.11. The first run is
  the ASCII digits, the second the Arabic-Indic digits U+0660..U+0669.
  \<open>re.fullmatch(r"\d+", s)\<close> succeeds when \<open>s\<close> is one decimal digit or more.
\<close>

definition decimal_starts :: "nat list" where
  "decimal_starts =
     [48, 1632, 1776, 1984, 2406, 2534, 2662, 2790] @
     [2918, 3046, 3174, 3302, 3430, 3558, 3664, 3792] @
     [3872, 4160, 4240, 6112, 6160, 6470, 6608, 6784] @
     [6800, 6992, 7088, 7232, 7248, 42528, 43216, 43264] @
     [43472, 43504, 43600, 44016, 65296, 66720, 68912, 69734] @
     [69872, 69942, 70096, 70384, 70736, 70864, 71248, 71360] @
     [71472, 71904, 72016, 72784, 73040, 73120, 92768, 92864] @
     [93008, 120782, 120792, 120802, 120812, 120822, 123200, 123632] @
     [125264, 130032]"

definition isdecimal :: "nat \<Rightarrow> bool" where
  "isdecimal c = list_ex (\<lambda>s. s \<le> c \<and> c < s + 10) decimal_starts"

definition ascii_digit :: "nat \<Rightarrow> bool" where
  "ascii_digit c = (48 \<le> c \<and> c \<le> 57)"

definition fullmatch_digits :: "pystr \<Rightarrow> bool" where
  "fullmatch_digits s = (s \<noteq> [] \<and> list_all isdecimal s)"

section \<open>IdentifierValidator: \<open>_validate_number\<close>\<close>

definition validate_number :: "pystr \<Rightarrow> error + pystr" where
  "validate_number raw =
     (let cleaned = strip raw in
      if cleaned = [] then Inl EmptyNumber
      else if \<not> fullmatch_digits cleaned then Inl (NonDigitNumber raw)
      else if length cleaned < 6 then Inl (TooShortNumber raw)
      else if length cleaned > 20 then Inl (TooLongNumber raw)
      else Inr cleaned)"

section \<open>Digest Deriver: \<open>_hash_number\<close>\<close>

text \<open>
  \<open>hashlib.sha256(b).hexdigest()\<close> is SHA-256 (FIPS 180-4) written in lower-case
  hexadecimal. Bytes and 32-bit words are integers, with the wrap-around written out as
  \<open>mod 2 ^ 32\<close>. The sixty-four round constants are given in rows of eight.
\<close>

definition K256 :: "int list" where
  "K256 =
     [0x428a2f98, 0x71374491, 0xb5c0fbcf, 0xe9b5dba5, 0x3956c25b, 0x59f111f1, 0x923f82a4, 0xab1c5ed5] @
     [0xd807aa98, 0x12835b01, 0x243185be, 0x550c7dc3, 0x72be5d74, 0x80deb1fe, 0x9bdc06a7, 0xc19bf174] @
     [0xe49b69c1, 0xefbe4786, 0x0fc19dc6, 0x240ca1cc, 0x2de92c6f, 0x4a7484aa, 0x5cb0a9dc, 0x76f988da] @
     [0x983e5152, 0xa831c66d, 0xb00327c8, 0xbf597fc7, 0xc6e00bf3, 0xd5a79147, 0x06ca6351, 0x14292967] @
     [0x27b70a85, 0x2e1b2138, 0x4d2c6dfc, 0x53380d13, 0x650a7354, 0x766a0abb, 0x81c2c92e, 0x92722c85] @
     [0xa2bfe8a1, 0xa81a664b, 0xc24b8b70, 0xc76c51a3, 0xd192e819, 0xd6990624, 0xf40e3585, 0x106aa070] @
     [0x19a4c116, 0x1e376c08, 0x2748774c, 0x34b0bcb5, 0x391c0cb3, 0x4ed8aa4a, 0x5b9cca4f, 0x682e6ff3] @
     [0x748f82ee, 0x78a5636f, 0x84c87814, 0x8cc70208, 0x90befffa, 0xa4506ceb, 0xbef9a3f7, 0xc67178f2]"

type_synonym hstate = "int \<times> int \<times> int \<times> int \<times> int \<times> int \<times> int \<times> int"

definition H256 :: hstate where
  "H256 = (0x6a09e667, 0xbb67ae85, 0x3c6ef372, 0xa54ff53a,
           0x510e527f, 0x9b05688c, 0x1f83d9ab, 0x5be0cd19)"

definition rotr :: "nat \<Rightarrow> int \<Rightarrow> int" where
  "rotr n x = x div 2 ^ n + x mod 2 ^ n * 2 ^ (32 - n)"

definition shr :: "nat \<Rightarrow> int \<Rightarrow> int" where
  "shr n x = x div 2 ^ n"

definition not32 :: "int \<Rightarrow> int" where
  "not32 x = 2 ^ 32 - 1 - x"

definition ssig0 :: "int \<Rightarrow> int" where
  "ssig0 x = rotr 7 x XOR rotr 18 x XOR shr 3 x"

definition ssig1 :: "int \<Rightarrow> int" where
  "ssig1 x = rotr 17 x XOR rotr 19 x XOR shr 10 x"

definition bsig0 :: "int \<Rightarrow> int" where
  "bsig0 x = rotr 2 x XOR rotr 13 x XOR rotr 22 x"

definition bsig1 :: "int \<Rightarrow> int" where
  "bsig1 x = rotr 6 x XOR rotr 11 x XOR rotr 25 x"

definition ch :: "int \<Rightarrow> int \<Rightarrow> int \<Rightarrow> int" where
  "ch x y z = (x AND y) XOR (not32 x AND z)"

definition maj :: "int \<Rightarrow> int \<Rightarrow> int \<Rightarrow> int" where
  "maj x y z = (x AND y) XOR (x AND z) XOR (y AND z)"

fun round1 :: "hstate \<Rightarrow> int \<Rightarrow> int \<Rightarrow> hstate" where
  "round1 (a, b, c, d, e, f, g, h) k w =
     (let t1 = (h + bsig1 e + ch e f g + k + w) mod 2 ^ 32;
          t2 = (bsig0 a + maj a b c) mod 2 ^ 32
      in ((t1 + t2) mod 2 ^ 32, a, b, c, (d + t1) mod 2 ^ 32, e, f, g))"

text \<open>
  The message schedule is kept as a window of sixteen words \<open>W[t], ..., W[t+15]\<close>: round
  \<open>t\<close> uses \<open>W[t]\<close>, and \<open>W[t+16]\<close> enters the window at its end.
\<close>

definition next_w :: "int list \<Rightarrow> int" where
  "next_w w = (ssig1 (w ! 14) + w ! 9 + ssig0 (w ! 1) + w ! 0) mod 2 ^ 32"

fun rounds :: "hstate \<Rightarrow> int list \<Rightarrow> int list \<Rightarrow> hstate" where
  "rounds s w [] = s"
| "rounds s w (k # ks) = rounds (round1 s k (hd w)) (tl w @ [next_w w]) ks"

fun add_state :: "hstate \<Rightarrow> hstate \<Rightarrow> hstate" where
  "add_state (a, b, c, d, e, f, g, h) (a', b', c', d', e', f', g', h') =
     ((a + a') mod 2 ^ 32, (b + b') mod 2 ^ 32, (c + c') mod 2 ^ 32, (d + d') mod 2 ^ 32,
      (e + e') mod 2 ^ 32, (f + f') mod 2 ^ 32, (g + g') mod 2 ^ 32, (h + h') mod 2 ^ 32)"

fun be32 :: "int list \<Rightarrow> int list" where
  "be32 (a # b # c # d # r) = (((a * 256 + b) * 256 + c) * 256 + d) # be32 r"
| "be32 _ = []"

definition compress :: "hstate \<Rightarrow> int list \<Rightarrow> hstate" where
  "compress s blk = add_state s (rounds s (be32 blk) K256)"

fun blocks :: "hstate \<Rightarrow> int list \<Rightarrow> hstate" where
  "blocks s bs =
     (if length bs < 64 then s else blocks (compress s (take 64 bs)) (drop 64 bs))"

declare blocks.simps [simp del]

definition be64 :: "nat \<Rightarrow> int list" where
  "be64 n = map (\<lambda>i. int (n div 256 ^ i mod 256)) [7, 6, 5, 4, 3, 2, 1, 0]"

definition pad :: "int list \<Rightarrow> int list" where
  "pad m = m @ [128] @ replicate ((119 - length m mod 64) mod 64) 0 @ be64 (8 * length m)"

definition sha256 :: "int list \<Rightarrow> hstate" where
  "sha256 m = blocks H256 (pad m)"

definition hexdigit :: "int \<Rightarrow> char" where
  "hexdigit d = ''0123456789abcdef'' ! nat d"

definition hex32 :: "int \<Rightarrow> string" where
  "hex32 w = map (\<lambda>i. hexdigit (w div 16 ^ i mod 16)) [7, 6, 5, 4, 3, 2, 1, 0]"

definition hexdigest :: "int list \<Rightarrow> string" where
  "hexdigest m =
     (case sha256 m of (a, b, c, d, e, f, g, h) \<Rightarrow> concat (map hex32 [a, b, c, d, e, f, g, h]))"

text \<open>
  \<open>str.encode("utf-8")\<close>: a code point takes one byte below U+0080, two below U+0800,
  three below U+10000 and four from there (a code point of a \<open>str\<close> is below U+110000).
  A surrogate code point, U+D800..U+DFFF, cannot be encoded: the call raises.
\<close>

definition utf8_char :: "nat \<Rightarrow> int list" where
  "utf8_char c =
     (if c < 128 then [int c]
      else if c < 2048 then [192 + int c div 64, 128 + int c mod 64]
      else if c < 65536 then [224 + int c div 4096, 128 + int c div 64 mod 64, 128 + int c mod 64]
      else [240 + int c div 262144, 128 + int c div 4096 mod 64, 128 + int c div 64 mod 64,
            128 + int c mod 64])"

definition surrogate :: "nat \<Rightarrow> bool" where
  "surrogate c = (55296 \<le> c \<and> c \<le> 57343)"

definition utf8_bytes :: "pystr \<Rightarrow> int list" where
  "utf8_bytes s = concat (map utf8_char s)"

definition encode_utf8 :: "pystr \<Rightarrow> error + int list" where
  "encode_utf8 s = (if list_ex surrogate s then Inl UnicodeEncodeError else Inr (utf8_bytes s))"

text \<open>
  \<open>sha256_hex s\<close> is the digest of the UTF-8 bytes of a text that has no surrogate;
  \<open>_hash_number\<close> returns it, or fails where the encoding fails.
\<close>

definition sha256_hex :: "pystr \<Rightarrow> string" where
  "sha256_hex s = hexdigest (utf8_bytes s)"

definition hash_number :: "pystr \<Rightarrow> error + string" where
  "hash_number num =
     (case encode_utf8 num of Inl e \<Rightarrow> Inl e | Inr b \<Rightarrow> Inr (hexdigest b))"

section \<open>FieldSynthesizer\<close>

definition and_then :: "error + 'a \<Rightarrow> ('a \<Rightarrow> error + 'b) \<Rightarrow> error + 'b" where
  "and_then r f = (case r of Inl e \<Rightarrow> Inl e | Inr x \<Rightarrow> f x)"

text \<open>The slice \<open>s[a:b]\<close> for \<open>0 \<le> a \<le> b\<close>.\<close>

definition slice :: "nat \<Rightarrow> nat \<Rightarrow> 'a list \<Rightarrow> 'a list" where
  "slice a b s = take (b - a) (drop a s)"

text \<open>
  \<open>int(s, 16)\<close> on a text of hexadecimal digits. Python's \<open>int\<close> also reads white space
  around the digits, a sign, a prefix \<open>0x\<close> and underscores between digits; a slice of a
  hexdigest has none of them, and here every other text is the \<open>ValueError\<close>.
\<close>

definition hexval :: "char \<Rightarrow> int option" where
  "hexval c =
     (if 48 \<le> code c \<and> code c \<le> 57 then Some (int (code c) - 48)
      else if 97 \<le> code c \<and> code c \<le> 102 then Some (int (code c) - 87)
      else if 65 \<le> code c \<and> code c \<le> 70 then Some (int (code c) - 55)
      else None)"

definition ishex :: "char \<Rightarrow> bool" where
  "ishex c = (hexval c \<noteq> None)"

definition hexnum :: "string \<Rightarrow> int" where
  "hexnum s = foldl (\<lambda>a c. 16 * a + the (hexval c)) 0 s"

definition int16 :: "string \<Rightarrow> error + int" where
  "int16 s =
     (if s \<noteq> [] \<and> list_all ishex s then Inr (hexnum s)
      else Inl (IntValueError s))"

text \<open>
  A \<open>datetime\<close> in UTC is the number of microseconds since 0001-01-01T00:00:00; the
  values of Python's type are those from 0 up to the end of the year 9999.
  \<open>timedelta(days, hours, minutes)\<close> is a number of microseconds.
\<close>

type_synonym datetime = int

definition MAXORDINAL :: int where
  "MAXORDINAL = 3652059"

definition day_us :: int where
  "day_us = 86400000000"

definition valid_datetime :: "datetime \<Rightarrow> bool" where
  "valid_datetime t = (0 \<le> t \<and> t < MAXORDINAL * day_us)"

definition timedelta :: "int \<Rightarrow> int \<Rightarrow> int \<Rightarrow> int" where
  "timedelta days hours minutes = ((days * 24 + hours) * 60 + minutes) * 60000000"

text \<open>\<open>datetime - timedelta\<close> raises \<open>OverflowError\<close> when the result is out of range.\<close>

definition datetime_sub :: "datetime \<Rightarrow> int \<Rightarrow> error + datetime" where
  "datetime_sub t delta =
     (if valid_datetime (t - delta) then Inr (t - delta) else Inl DateOverflow)"

definition replace_microsecond0 :: "datetime \<Rightarrow> datetime" where
  "replace_microsecond0 t = t - t mod 1000000"

text \<open>
  The proleptic Gregorian date of a day number (1 is 0001-01-01), computed as the
  \<open>datetime\<close> module does: cycles of 400, 100, 4 and 1 years.
\<close>

definition days_before_month :: "nat list" where
  "days_before_month = [0, 0, 31, 59, 90, 120, 151, 181, 212, 243, 273, 304, 334]"

definition days_in_month :: "nat list" where
  "days_in_month = [0, 31, 28, 31, 30, 31, 30, 31, 31, 30, 31, 30, 31]"

definition ord2ymd :: "nat \<Rightarrow> nat \<times> nat \<times> nat" where
  "ord2ymd ordinal =
     (let n = ordinal - 1;
          n400 = n div 146097; r400 = n mod 146097;
          n100 = r400 div 36524; r100 = r400 mod 36524;
          n4 = r100 div 1461; r4 = r100 mod 1461;
          n1 = r4 div 365; r1 = r4 mod 365;
          year = n400 * 400 + 1 + n100 * 100 + n4 * 4 + n1
      in if n1 = 4 \<or> n100 = 4 then (year - 1, 12, 31)
         else
           let leapyear = (n1 = 3 \<and> (n4 \<noteq> 24 \<or> n100 = 3));
               month = (r1 + 50) div 32;
               preceding = days_before_month ! month + (if 2 < month \<and> leapyear then 1 else 0)
           in if r1 < preceding
              then (year, month - 1,
                    r1 + (days_in_month ! (month - 1) + (if month - 1 = 2 \<and> leapyear then 1 else 0))
                       - preceding + 1)
              else (year, month, r1 - preceding + 1))"

definition digit_char :: "nat \<Rightarrow> char" where
  "digit_char d = ''0123456789'' ! d"

fun str_nat :: "nat \<Rightarrow> string" where
  "str_nat n = (if n < 10 then [digit_char n] else str_nat (n div 10) @ [digit_char (n mod 10)])"

declare str_nat.simps [simp del]

text \<open>The formats \<open>%02d\<close>, \<open>%04d\<close> and \<open>%06d\<close> of a number that is not negative.\<close>

definition zfill :: "nat \<Rightarrow> nat \<Rightarrow> string" where
  "zfill w n = replicate (w - length (str_nat n)) CHR ''0'' @ str_nat n"

definition isoformat :: "datetime \<Rightarrow> string" where
  "isoformat t =
     (let ymd = ord2ymd (nat (t div day_us) + 1);
          s = nat (t div 1000000 mod 86400);
          us = nat (t mod 1000000)
      in zfill 4 (fst ymd) @ ''-'' @ zfill 2 (fst (snd ymd)) @ ''-'' @ zfill 2 (snd (snd ymd))
         @ ''T'' @ zfill 2 (s div 3600) @ '':'' @ zfill 2 (s div 60 mod 60) @ '':'' @ zfill 2 (s mod 60)
         @ (if us = 0 then [] else ''.'' @ zfill 6 us)
         @ ''+00:00'')"

text \<open>\<open>str.replace(old, new)\<close>: every occurrence of \<open>old\<close>, from the left, without overlap.\<close>

function replace_str :: "string \<Rightarrow> string \<Rightarrow> string \<Rightarrow> string" where
  "replace_str old new s =
     (if old = [] then new @ concat (map (\<lambda>c. c # new) s)
      else if s = [] then []
      else if take (length old) s = old then new @ replace_str old new (drop (length old) s)
      else hd s # replace_str old new (tl s))"
  by pat_completeness auto
termination
  by (relation "measure (\<lambda>(old, new, s). length s)") auto

declare replace_str.simps [simp del]

text \<open>\<open>str.rstrip(chars)\<close>: the trailing characters that are in \<open>chars\<close> are removed.\<close>

definition rstrip_chars :: "pystr \<Rightarrow> pystr \<Rightarrow> pystr" where
  "rstrip_chars chars s = rev (dropWhile (\<lambda>c. c \<in> set chars) (rev s))"

text \<open>The fifth template has the code point U+2728 (10024) at both ends.\<close>

definition ABOUT_TEMPLATES :: "pystr list" where
  "ABOUT_TEMPLATES = [
     str_of ''Living my best life!'',
     str_of ''Available on WhatsApp only.'',
     str_of ''Work hard, dream big.'',
     str_of ''Stay positive, work hard, make it happen.'',
     [10024] @ str_of '' Hustle in silence. '' @ [10024],
     str_of ''Just another human on the internet.'',
     str_of ''Business inquiries only.'',
     str_of ''Blessed and grateful.'']"

text \<open>
  \<open>_deterministic_datetime\<close> reads the clock with \<open>datetime.now(timezone.utc)\<close>; the
  reading is the argument \<open>now\<close>.
\<close>

definition deterministic_datetime :: "datetime \<Rightarrow> string \<Rightarrow> error + datetime" where
  "deterministic_datetime now hash_hex =
     and_then (int16 (slice 0 4 hash_hex)) (\<lambda>a.
     and_then (int16 (slice 4 6 hash_hex)) (\<lambda>b.
     and_then (int16 (slice 6 8 hash_hex)) (\<lambda>c.
       let days_ago = a mod 365; hours = b mod 24; minutes = c mod 60 in
       and_then (datetime_sub now (timedelta days_ago hours minutes)) (\<lambda>dt.
       Inr (replace_microsecond0 dt)))))"

definition deterministic_choice :: "string \<Rightarrow> pystr list \<Rightarrow> error + pystr" where
  "deterministic_choice hash_hex templates =
     and_then (int16 (slice 8 12 hash_hex)) (\<lambda>v.
       if templates = [] then Inl ZeroDivisionError
       else Inr (templates ! nat (v mod int (length templates))))"

section \<open>ProfileBuilder: \<open>_build_profile\<close>\<close>

record WhatsAppProfile =
  number :: pystr
  is_registered :: bool
  profile_picture :: pystr
  about :: pystr
  about_last_updated :: pystr
  account_type :: pystr

text \<open>
  The values that a record holds; \<open>'s\<close> is the type of its texts. The records of the
  builder hold texts of any code points; the encoders of the export layer are modelled on
  records whose texts have code points below 256.
\<close>

datatype 's pyval = VNone | VBool bool | VInt int | VStr 's

type_synonym 's record_of = "(string \<times> 's pyval) list"

type_synonym pydict = "string record_of"

text \<open>\<open>asdict\<close>: the fields in the order of their declaration.\<close>

definition to_dict :: "WhatsAppProfile \<Rightarrow> pystr record_of" where
  "to_dict p =
     [(''number'', VStr (number p)),
      (''is_registered'', VBool (is_registered p)),
      (''profile_picture'', VStr (profile_picture p)),
      (''about'', VStr (about p)),
      (''about_last_updated'', VStr (about_last_updated p)),
      (''account_type'', VStr (account_type p))]"

definition build_profile :: "datetime \<Rightarrow> pystr \<Rightarrow> pystr \<Rightarrow> error + WhatsAppProfile" where
  "build_profile now raw media_base_url =
     and_then (validate_number raw) (\<lambda>number_validated.
       and_then (hash_number number_validated) (\<lambda>h.
       and_then (int16 (slice 12 14 h)) (\<lambda>r.
       and_then (int16 (slice 14 16 h)) (\<lambda>t.
       and_then (if r mod 3 \<noteq> 0 then deterministic_choice h ABOUT_TEMPLATES else Inr [])
         (\<lambda>about_text.
       and_then (deterministic_datetime now h) (\<lambda>about_dt.
         Inr \<lparr>number = number_validated,
              is_registered = (r mod 3 \<noteq> 0),
              profile_picture =
                (if r mod 3 \<noteq> 0
                 then rstrip_chars (str_of ''/'') media_base_url @ str_of ''/''
                        @ str_of (take 16 h) @ str_of ''.jpg''
                 else []),
              about = about_text,
              about_last_updated = str_of (replace_str ''+00:00'' ''Z'' (isoformat about_dt)),
              account_type = str_of (if t mod 5 = 0 then ''business'' else ''personal'')\<rparr>))))))"

section \<open>BatchAssembler: \<open>build_profiles\<close>\<close>

text \<open>
  The loop reads the clock once for each number that passes validation. The clock is a
  sequence of readings, \<open>clock i\<close> being what it shows while the loop is at the input of
  position \<open>i\<close>. The warnings that the loop logs are collected in the order of their
  emission; \<open>Warning raw exc\<close> is \<open>logger.warning("Skipping number '%s': %s", raw, exc)\<close>.
  The function returns \<open>profiles\<close>; the warnings are its effect on the log.
\<close>

datatype log_record = Warning pystr error

fun build_loop ::
  "(nat \<Rightarrow> datetime) \<Rightarrow> pystr list \<Rightarrow> pystr \<Rightarrow> pystr record_of list \<Rightarrow> log_record list
     \<Rightarrow> pystr record_of list \<times> log_record list" where
  "build_loop clock [] media_base_url profiles logged = (profiles, logged)"
| "build_loop clock (raw # rest) media_base_url profiles logged =
     (case build_profile (clock 0) raw media_base_url of
        Inr profile \<Rightarrow>
          build_loop (\<lambda>i. clock (Suc i)) rest media_base_url (profiles @ [to_dict profile]) logged
      | Inl exc \<Rightarrow>
          build_loop (\<lambda>i. clock (Suc i)) rest media_base_url profiles (logged @ [Warning raw exc]))"

definition build_profiles ::
  "(nat \<Rightarrow> datetime) \<Rightarrow> pystr list \<Rightarrow> pystr \<Rightarrow> pystr record_of list \<times> log_record list" where
  "build_profiles clock numbers media_base_url = build_loop clock numbers media_base_url [] []"

text \<open>
  An input is valid when the validator accepts it. The readings of the clock are in range
  when each is a \<open>datetime\<close> of the year 2 or later: the builder subtracts less than 365
  days from it.
\<close>

definition valid_identifier :: "pystr \<Rightarrow> bool" where
  "valid_identifier raw = (case validate_number raw of Inr _ \<Rightarrow> True | Inl _ \<Rightarrow> False)"

definition reading_in_range :: "datetime \<Rightarrow> bool" where
  "reading_in_range t = (365 * day_us \<le> t \<and> t < MAXORDINAL * day_us)"

fun clock_in_range :: "(nat \<Rightarrow> datetime) \<Rightarrow> nat \<Rightarrow> bool" where
  "clock_in_range clock 0 = True"
| "clock_in_range clock (Suc n) = (reading_in_range (clock 0) \<and> clock_in_range (\<lambda>i. clock (Suc i)) n)"

section \<open>Export layer: values, paths and files\<close>

text \<open>\<open>str(value)\<close> for the values a record holds.\<close>

definition str_int :: "int \<Rightarrow> string" where
  "str_int i = (if i < 0 then ''-'' @ str_nat (nat (- i)) else str_nat (nat i))"

fun py_str :: "string pyval \<Rightarrow> string" where
  "py_str VNone = ''None''"
| "py_str (VBool True) = ''True''"
| "py_str (VBool False) = ''False''"
| "py_str (VInt i) = str_int i"
| "py_str (VStr s) = s"

text \<open>\<open>record.keys()\<close> and \<open>record.get(key, "")\<close> of a dictionary, which keeps insertion order.\<close>

definition keys :: "pydict \<Rightarrow> string list" where
  "keys record = map fst record"

definition get_or_empty :: "pydict \<Rightarrow> string \<Rightarrow> string pyval" where
  "get_or_empty record key = (case map_of record key of Some v \<Rightarrow> v | None \<Rightarrow> VStr [])"

text \<open>\<open>str.lower()\<close>: below 256 the capital letters are A to Z and U+00C0 to U+00DE but U+00D7.\<close>

definition lower_char :: "char \<Rightarrow> char" where
  "lower_char c =
     (if (65 \<le> code c \<and> code c \<le> 90) \<or> (192 \<le> code c \<and> code c \<le> 222 \<and> code c \<noteq> 215)
      then char_of (code c + 32) else c)"

definition lower :: "string \<Rightarrow> string" where
  "lower s = map lower_char s"

text \<open>
  A \<open>Path\<close> is its root (empty for a relative path) and its parts below the root.
  \<open>name\<close>, \<open>suffix\<close>, \<open>with_suffix\<close> and \<open>parent\<close> are those of \<open>pathlib\<close>: the suffix
  starts at the last dot of the name, when that dot is neither its first nor its last
  character.
\<close>

record path =
  root :: string
  parts :: "string list"

definition path_name :: "path \<Rightarrow> string" where
  "path_name p = (if parts p = [] then [] else last (parts p))"

definition rfind_dot :: "string \<Rightarrow> int" where
  "rfind_dot s =
     (if CHR ''.'' \<in> set s
      then int (length s) - 1 - int (length (takeWhile (\<lambda>c. c \<noteq> CHR ''.'') (rev s)))
      else - 1)"

definition name_suffix :: "string \<Rightarrow> string" where
  "name_suffix n =
     (let i = rfind_dot n in if 0 < i \<and> i < int (length n) - 1 then drop (nat i) n else [])"

definition path_suffix :: "path \<Rightarrow> string" where
  "path_suffix p = name_suffix (path_name p)"

definition with_suffix :: "path \<Rightarrow> string \<Rightarrow> error + path" where
  "with_suffix p suffix =
     (let n = path_name p in
      if n = [] then Inl EmptyName
      else Inr (p\<lparr>parts := butlast (parts p)
                   @ [take (length n - length (name_suffix n)) n @ suffix]\<rparr>))"

definition path_parent :: "path \<Rightarrow> path" where
  "path_parent p = p\<lparr>parts := butlast (parts p)\<rparr>"

text \<open>
  What a file holds: text, or a workbook with the title of its sheet and its rows of
  cells. The system is its directories, its files and whether \<open>openpyxl\<close> can be
  imported. Paths are taken as they are written (no link, no \<open>..\<close> is resolved);
  permissions and failures of the device are outside the model.
\<close>

datatype content = Text string | Workbook string "string pyval list list"

record system =
  dirs :: "path set"
  files :: "path \<Rightarrow> content option"
  has_openpyxl :: bool

definition exists :: "system \<Rightarrow> path \<Rightarrow> bool" where
  "exists sys p = (p \<in> dirs sys \<or> files sys p \<noteq> None)"

fun prefixes_of :: "'a list \<Rightarrow> 'a list list" where
  "prefixes_of [] = [[]]"
| "prefixes_of (x # xs) = [] # map ((#) x) (prefixes_of xs)"

definition ancestors :: "path \<Rightarrow> path list" where
  "ancestors p = map (\<lambda>ps. p\<lparr>parts := ps\<rparr>) (prefixes_of (parts p))"

text \<open>\<open>Path.mkdir(parents=True, exist_ok=True)\<close>.\<close>

definition mkdir_parents :: "path \<Rightarrow> system \<Rightarrow> (error + unit) \<times> system" where
  "mkdir_parents p sys =
     (if list_ex (\<lambda>a. files sys a \<noteq> None) (ancestors p) then (Inl NotADirectoryError, sys)
      else (Inr (), sys\<lparr>dirs := dirs sys \<union> set (ancestors p)\<rparr>))"

text \<open>Opening a file for writing creates it empty, or empties it.\<close>

definition open_write :: "path \<Rightarrow> system \<Rightarrow> (error + unit) \<times> system" where
  "open_write p sys =
     (if p \<in> dirs sys then (Inl IsADirectoryError, sys)
      else if path_parent p \<notin> dirs sys
      then (Inl (if exists sys (path_parent p) then NotADirectoryError else FileNotFoundError), sys)
      else (Inr (), sys\<lparr>files := (files sys)(p \<mapsto> Text [])\<rparr>))"

definition ensure_parent_dir :: "path \<Rightarrow> system \<Rightarrow> (error + unit) \<times> system" where
  "ensure_parent_dir p sys =
     (if \<not> exists sys (path_parent p) then mkdir_parents (path_parent p) sys else (Inr (), sys))"

text \<open>Writing the whole content of a file that has been opened.\<close>

definition write_file :: "path \<Rightarrow> content \<Rightarrow> system \<Rightarrow> system" where
  "write_file p c sys = sys\<lparr>files := (files sys)(p \<mapsto> c)\<rparr>"

section \<open>ExportDispatcher and encoders\<close>

definition SUPPORTED_FORMATS :: "string set" where
  "SUPPORTED_FORMATS = {''json'', ''csv'', ''xml'', ''html'', ''excel''}"

fun add_keys :: "string list \<Rightarrow> string list \<Rightarrow> string list" where
  "add_keys fieldnames [] = fieldnames"
| "add_keys fieldnames (key # rest) =
     add_keys (if key \<notin> set fieldnames then fieldnames @ [key] else fieldnames) rest"

fun get_fieldnames_loop :: "string list \<Rightarrow> pydict list \<Rightarrow> string list" where
  "get_fieldnames_loop fieldnames [] = fieldnames"
| "get_fieldnames_loop fieldnames (record # records) =
     get_fieldnames_loop (add_keys fieldnames (keys record)) records"

definition get_fieldnames :: "pydict list \<Rightarrow> string list" where
  "get_fieldnames records = get_fieldnames_loop [] records"

definition nl :: string where
  "nl = [CHR 0x0A]"

definition crlf :: string where
  "crlf = [CHR 0x0D, CHR 0x0A]"

text \<open>\<open>sep.join(items)\<close>.\<close>

fun join :: "string \<Rightarrow> string list \<Rightarrow> string" where
  "join sep [] = []"
| "join sep [x] = x"
| "join sep (x # y # r) = x @ sep @ join sep (y # r)"

subsection \<open>JSON\<close>

text \<open>
  \<open>json.dump(records, f, ensure_ascii=False, indent=2)\<close>: the quotation mark, the
  backslash and the control characters are escaped in a string, and nothing else.
\<close>

definition hex4 :: "nat \<Rightarrow> string" where
  "hex4 n = map (\<lambda>i. hexdigit (int (n div 16 ^ i mod 16))) [3, 2, 1, 0]"

definition json_escape_char :: "char \<Rightarrow> string" where
  "json_escape_char c =
     (if c = CHR 0x22 then [CHR 0x5C, CHR 0x22]
      else if c = CHR 0x5C then [CHR 0x5C, CHR 0x5C]
      else if c = CHR 0x0A then [CHR 0x5C, CHR ''n'']
      else if c = CHR 0x0D then [CHR 0x5C, CHR ''r'']
      else if c = CHR 0x09 then [CHR 0x5C, CHR ''t'']
      else if c = CHR 0x08 then [CHR 0x5C, CHR ''b'']
      else if c = CHR 0x0C then [CHR 0x5C, CHR ''f'']
      else if code c < 32 then [CHR 0x5C, CHR ''u''] @ hex4 (code c)
      else [c])"

definition json_string :: "string \<Rightarrow> string" where
  "json_string s = [CHR 0x22] @ concat (map json_escape_char s) @ [CHR 0x22]"

fun json_value :: "string pyval \<Rightarrow> string" where
  "json_value VNone = ''null''"
| "json_value (VBool True) = ''true''"
| "json_value (VBool False) = ''false''"
| "json_value (VInt i) = str_int i"
| "json_value (VStr s) = json_string s"

definition json_object :: "pydict \<Rightarrow> string" where
  "json_object record =
     (if record = [] then ''{}''
      else ''{'' @ nl
           @ join ('','' @ nl) (map (\<lambda>(k, v). ''    '' @ json_string k @ '': '' @ json_value v) record)
           @ nl @ ''  }'')"

definition json_dumps :: "pydict list \<Rightarrow> string" where
  "json_dumps records =
     (if records = [] then ''[]''
      else ''['' @ nl @ join ('','' @ nl) (map (\<lambda>r. ''  '' @ json_object r) records) @ nl @ '']'')"

definition export_json :: "pydict list \<Rightarrow> path \<Rightarrow> system \<Rightarrow> (error + unit) \<times> system" where
  "export_json records output_path sys =
     (case ensure_parent_dir output_path sys of
        (Inl e, sys1) \<Rightarrow> (Inl e, sys1)
      | (Inr u, sys1) \<Rightarrow>
          (case open_write output_path sys1 of
             (Inl e, sys2) \<Rightarrow> (Inl e, sys2)
           | (Inr u, sys2) \<Rightarrow> (Inr (), write_file output_path (Text (json_dumps records)) sys2)))"

subsection \<open>CSV\<close>

text \<open>
  \<open>csv.DictWriter\<close> with its defaults: a key of the row that is no field name raises, a
  field name that is no key of the row gives the empty cell, \<open>None\<close> is written empty. A
  cell with a comma, a quotation mark or a line break is quoted, and a row that is one
  empty cell is written as two quotation marks. The rows are written one by one: a row
  that raises leaves the file with the rows before it.
\<close>

definition csv_cell :: "string pyval \<Rightarrow> string" where
  "csv_cell v = (case v of VNone \<Rightarrow> [] | _ \<Rightarrow> py_str v)"

definition csv_quote :: "string \<Rightarrow> string" where
  "csv_quote s =
     (if list_ex (\<lambda>c. c \<in> {CHR '','', CHR 0x22, CHR 0x0D, CHR 0x0A}) s
      then [CHR 0x22] @ concat (map (\<lambda>c. if c = CHR 0x22 then [c, c] else [c]) s) @ [CHR 0x22]
      else s)"

definition csv_line :: "string list \<Rightarrow> string" where
  "csv_line cells =
     (if cells = [[]] then [CHR 0x22, CHR 0x22] else join '','' (map csv_quote cells)) @ crlf"

definition dict_to_list :: "string list \<Rightarrow> pydict \<Rightarrow> error + string list" where
  "dict_to_list fieldnames record =
     (if list_ex (\<lambda>k. k \<notin> set fieldnames) (keys record) then Inl ExtraFields
      else Inr (map (\<lambda>k. csv_cell (get_or_empty record k)) fieldnames))"

fun write_rows :: "string list \<Rightarrow> pydict list \<Rightarrow> string \<Rightarrow> (error + unit) \<times> string" where
  "write_rows fieldnames [] written = (Inr (), written)"
| "write_rows fieldnames (record # records) written =
     (case dict_to_list fieldnames record of
        Inl e \<Rightarrow> (Inl e, written)
      | Inr cells \<Rightarrow> write_rows fieldnames records (written @ csv_line cells))"

definition export_csv :: "pydict list \<Rightarrow> path \<Rightarrow> system \<Rightarrow> (error + unit) \<times> system" where
  "export_csv records output_path sys =
     (case ensure_parent_dir output_path sys of
        (Inl e, sys1) \<Rightarrow> (Inl e, sys1)
      | (Inr u, sys1) \<Rightarrow>
          (let fieldnames = (if records \<noteq> [] then get_fieldnames records else []) in
           case open_write output_path sys1 of
             (Inl e, sys2) \<Rightarrow> (Inl e, sys2)
           | (Inr u, sys2) \<Rightarrow>
               (case write_rows fieldnames records (csv_line fieldnames) of
                  (r, written) \<Rightarrow> (r, write_file output_path (Text written) sys2))))"

text \<open>
  The text of a table: the line of the field names, then for each record the line of its
  cells under these field names.
\<close>

definition csv_text :: "pydict list \<Rightarrow> string" where
  "csv_text records =
     csv_line (get_fieldnames records)
     @ concat (map (\<lambda>r. csv_line (map (\<lambda>k. csv_cell (get_or_empty r k)) (get_fieldnames records)))
         records)"

subsection \<open>XML\<close>

text \<open>
  An element has a tag, a text and children. \<open>ElementTree.write\<close> with the declaration
  writes an element with no text and no child in the short form; in a text the
  ampersand and the angle brackets are escaped. A tag is written as it is.
\<close>

datatype xml = Element string string "xml list"

definition xml_text :: "string pyval \<Rightarrow> string" where
  "xml_text v = (case v of VNone \<Rightarrow> [] | _ \<Rightarrow> py_str v)"

definition xml_tree :: "pydict list \<Rightarrow> xml" where
  "xml_tree records =
     Element ''profiles'' []
       (map (\<lambda>record. Element ''profile'' [] (map (\<lambda>(k, v). Element k (xml_text v) []) record))
          records)"

definition escape_cdata :: "string \<Rightarrow> string" where
  "escape_cdata s =
     concat (map (\<lambda>c. if c = CHR ''&'' then ''&amp;''
                       else if c = CHR ''<'' then ''&lt;''
                       else if c = CHR ''>'' then ''&gt;''
                       else [c]) s)"

fun serialize_xml :: "xml \<Rightarrow> string" where
  "serialize_xml (Element tag text children) =
     (if text = [] \<and> children = [] then ''<'' @ tag @ '' />''
      else ''<'' @ tag @ ''>'' @ escape_cdata text @ concat (map serialize_xml children)
           @ ''</'' @ tag @ ''>'')"

definition xml_document :: "xml \<Rightarrow> string" where
  "xml_document t = ''<?xml version='1.0' encoding='utf-8'?>'' @ nl @ serialize_xml t"

definition export_xml :: "pydict list \<Rightarrow> path \<Rightarrow> system \<Rightarrow> (error + unit) \<times> system" where
  "export_xml records output_path sys =
     (case ensure_parent_dir output_path sys of
        (Inl e, sys1) \<Rightarrow> (Inl e, sys1)
      | (Inr u, sys1) \<Rightarrow>
          (case open_write output_path sys1 of
             (Inl e, sys2) \<Rightarrow> (Inl e, sys2)
           | (Inr u, sys2) \<Rightarrow>
               (Inr (), write_file output_path (Text (xml_document (xml_tree records))) sys2)))"

subsection \<open>HTML\<close>

text \<open>\<open>html.escape\<close> with its default \<open>quote=True\<close>.\<close>

definition escape :: "string \<Rightarrow> string" where
  "escape s =
     concat (map (\<lambda>c. if c = CHR ''&'' then ''&amp;''
                       else if c = CHR ''<'' then ''&lt;''
                       else if c = CHR ''>'' then ''&gt;''
                       else if c = CHR 0x22 then ''&quot;''
                       else if c = CHR 0x27 then ''&#x27;''
                       else [c]) s)"

definition html_headers :: "pydict list \<Rightarrow> string list" where
  "html_headers records = (case records of [] \<Rightarrow> [] | first # _ \<Rightarrow> keys first)"

definition html_cell :: "string pyval \<Rightarrow> string" where
  "html_cell v = ''        <td>'' @ escape (case v of VNone \<Rightarrow> [] | _ \<Rightarrow> py_str v) @ ''</td>''"

definition html_lines :: "pydict list \<Rightarrow> string list" where
  "html_lines records =
     (let headers = html_headers records in
      [''<!DOCTYPE html>'',
       ''<html lang='en'>'',
       ''<head>'',
       ''  <meta charset='UTF-8' />'',
       ''  <title>WhatsApp Profiles Export</title>'',
       ''  <style>'',
       ''    table { border-collapse: collapse; width: 100%; }'',
       ''    th, td { border: 1px solid #ddd; padding: 8px; font-family: Arial, sans-serif; font-size: 14px; }'',
       ''    th { background-color: #f5f5f5; text-align: left; }'',
       ''    tr:nth-child(even) { background-color: #fafafa; }'',
       ''  </style>'',
       ''</head>'',
       ''<body>'',
       ''  <h1>WhatsApp Profiles Export</h1>'',
       ''  <table>'',
       ''    <thead>'',
       ''      <tr>'']
      @ map (\<lambda>h. ''        <th>'' @ escape h @ ''</th>'') headers
      @ [''      </tr>'',
         ''    </thead>'',
         ''    <tbody>'']
      @ concat (map (\<lambda>record.
            [''      <tr>''] @ map (\<lambda>h. html_cell (get_or_empty record h)) headers @ [''      </tr>''])
          records)
      @ [''    </tbody>'',
         ''  </table>'',
         ''</body>'',
         ''</html>''])"

definition export_html :: "pydict list \<Rightarrow> path \<Rightarrow> system \<Rightarrow> (error + unit) \<times> system" where
  "export_html records output_path sys =
     (case ensure_parent_dir output_path sys of
        (Inl e, sys1) \<Rightarrow> (Inl e, sys1)
      | (Inr u, sys1) \<Rightarrow>
          (case ensure_parent_dir output_path sys1 of
             (Inl e, sys2) \<Rightarrow> (Inl e, sys2)
           | (Inr u, sys2) \<Rightarrow>
               (case open_write output_path sys2 of
                  (Inl e, sys3) \<Rightarrow> (Inl e, sys3)
                | (Inr u, sys3) \<Rightarrow>
                    (Inr (), write_file output_path (Text (join nl (html_lines records))) sys3))))"

subsection \<open>Spreadsheet\<close>

text \<open>
  The sheet is named \<open>Profiles\<close>; when there is a field name, the first row holds the
  field names and each record gives a row of its values, empty where it has none.
\<close>

definition excel_rows :: "pydict list \<Rightarrow> string pyval list list" where
  "excel_rows records =
     (let fieldnames = (if records \<noteq> [] then get_fieldnames records else []) in
      if fieldnames \<noteq> []
      then map VStr fieldnames # map (\<lambda>record. map (get_or_empty record) fieldnames) records
      else [])"

text \<open>
  \<open>ws.append(row)\<close> binds each value to a cell. For a text, \<open>openpyxl\<close> keeps its first
  32767 characters and raises \<open>IllegalCharacterError\<close> when one of them is a control
  character that a worksheet cannot hold: U+0000..U+0008, U+000B, U+000C or
  U+000E..U+001F. The other values are bound as they are. The rows are appended in
  order, so the first illegal text ends the export, after the parent directory has been
  made and before anything is saved.
\<close>

definition illegal_character :: "char \<Rightarrow> bool" where
  "illegal_character c =
     (code c \<le> 8 \<or> code c = 11 \<or> code c = 12 \<or> (14 \<le> code c \<and> code c \<le> 31))"

definition check_string :: "string \<Rightarrow> error + string" where
  "check_string v =
     (let t = take 32767 v in
      if list_ex illegal_character t then Inl IllegalCharacterError else Inr t)"

fun bind_value :: "string pyval \<Rightarrow> error + string pyval" where
  "bind_value (VStr s) = and_then (check_string s) (\<lambda>t. Inr (VStr t))"
| "bind_value VNone = Inr VNone"
| "bind_value (VBool b) = Inr (VBool b)"
| "bind_value (VInt i) = Inr (VInt i)"

fun append_row :: "string pyval list \<Rightarrow> error + string pyval list" where
  "append_row [] = Inr []"
| "append_row (v # vs) =
     and_then (bind_value v) (\<lambda>c. and_then (append_row vs) (\<lambda>cs. Inr (c # cs)))"

fun append_rows :: "string pyval list list \<Rightarrow> error + string pyval list list" where
  "append_rows [] = Inr []"
| "append_rows (row # rows) =
     and_then (append_row row) (\<lambda>r. and_then (append_rows rows) (\<lambda>rs. Inr (r # rs)))"

text \<open>A value that a cell holds unchanged: any value but a text too long or with an illegal character.\<close>

fun legal_cell :: "string pyval \<Rightarrow> bool" where
  "legal_cell (VStr s) = (length s \<le> 32767 \<and> \<not> list_ex illegal_character s)"
| "legal_cell VNone = True"
| "legal_cell (VBool b) = True"
| "legal_cell (VInt i) = True"

definition export_excel :: "pydict list \<Rightarrow> path \<Rightarrow> system \<Rightarrow> (error + unit) \<times> system" where
  "export_excel records output_path sys =
     (if \<not> has_openpyxl sys then (Inl MissingOpenpyxl, sys)
      else
        case ensure_parent_dir output_path sys of
          (Inl e, sys1) \<Rightarrow> (Inl e, sys1)
        | (Inr u, sys1) \<Rightarrow>
            (case append_rows (excel_rows records) of
               Inl e \<Rightarrow> (Inl e, sys1)
             | Inr sheet \<Rightarrow>
                 (case open_write output_path sys1 of
                    (Inl e, sys2) \<Rightarrow> (Inl e, sys2)
                  | (Inr u, sys2) \<Rightarrow>
                      (Inr (), write_file output_path (Workbook ''Profiles'' sheet) sys2))))"

subsection \<open>The entry point \<open>export_profiles\<close>\<close>

definition export_profiles ::
  "pydict list \<Rightarrow> path \<Rightarrow> string \<Rightarrow> system \<Rightarrow> (error + unit) \<times> system" where
  "export_profiles records output_path fmt sys =
     (let fmt_normalized = lower fmt in
      if fmt_normalized \<notin> SUPPORTED_FORMATS then (Inl (UnsupportedFormat fmt), sys)
      else if fmt_normalized = ''json'' then export_json records output_path sys
      else if fmt_normalized = ''csv'' then export_csv records output_path sys
      else if fmt_normalized = ''xml'' then export_xml records output_path sys
      else if fmt_normalized = ''html'' then export_html records output_path sys
      else if fmt_normalized = ''excel'' then
        (if lower (path_suffix output_path) \<noteq> ''.xlsx''
         then (case with_suffix output_path ''.xlsx'' of
                 Inl e \<Rightarrow> (Inl e, sys)
               | Inr p \<Rightarrow> export_excel records p sys)
         else export_excel records output_path sys)
      else (Inl (UnexpectedFormat fmt_normalized), sys))"

section \<open>The command-line driver: the output format in \<open>main\<close>\<close>

text \<open>
  The lines of \<open>main\<close> that determine the output format and check it. \<open>args_format\<close> is
  \<open>args.format\<close>, absent or one of the supported names; \<open>settings\<close> is the dictionary of
  the loaded settings. The check gives the status 1 with which \<open>main\<close> returns, or
  nothing when \<open>main\<close> goes on.
\<close>

definition main_output_format :: "string option \<Rightarrow> (string \<Rightarrow> string pyval option) \<Rightarrow> string" where
  "main_output_format args_format settings =
     (case args_format of
        Some f \<Rightarrow>
          if f \<noteq> [] then lower f
          else lower (py_str (case settings ''default_output_format'' of
                                Some v \<Rightarrow> v | None \<Rightarrow> VStr ''json''))
      | None \<Rightarrow>
          lower (py_str (case settings ''default_output_format'' of
                           Some v \<Rightarrow> v | None \<Rightarrow> VStr ''json'')))"

definition main_format_check :: "string option \<Rightarrow> (string \<Rightarrow> string pyval option) \<Rightarrow> nat option" where
  "main_format_check args_format settings =
     (if main_output_format args_format settings \<notin> SUPPORTED_FORMATS then Some 1 else None)"

text \<open>The value of the key \<open>number\<close> in a record.\<close>

definition number_of :: "'s record_of \<Rightarrow> 's pyval option" where
  "number_of d = map_of d ''number''"

section \<open>The synthesis as the specification words it\<close>

text \<open>
  The specification gives each field as arithmetic over ranges of the hexadecimal digest,
  read as integers in base 16; the time stamp is the reference time less the three
  offsets, cut to whole seconds and written as ISO 8601 with the designator \<open>Z\<close>.
\<close>

definition spec_hex :: "string \<Rightarrow> nat \<Rightarrow> nat \<Rightarrow> int" where
  "spec_hex h a b = hexnum (slice a b h)"

definition spec_truncate_seconds :: "datetime \<Rightarrow> datetime" where
  "spec_truncate_seconds t = t div 1000000 * 1000000"

definition spec_iso8601_utc :: "datetime \<Rightarrow> string" where
  "spec_iso8601_utc t =
     (let ymd = ord2ymd (nat (t div day_us) + 1);
          s = nat (t div 1000000 mod 86400)
      in zfill 4 (fst ymd) @ ''-'' @ zfill 2 (fst (snd ymd)) @ ''-'' @ zfill 2 (snd (snd ymd))
         @ ''T'' @ zfill 2 (s div 3600) @ '':'' @ zfill 2 (s div 60 mod 60) @ '':'' @ zfill 2 (s mod 60)
         @ ''Z'')"

definition spec_reference_time :: "datetime \<Rightarrow> string \<Rightarrow> datetime" where
  "spec_reference_time now h =
     now - (spec_hex h 0 4 mod 365) * day_us
         - (spec_hex h 4 6 mod 24) * 3600000000
         - (spec_hex h 6 8 mod 60) * 60000000"

definition spec_strip_trailing_slash :: "pystr \<Rightarrow> pystr" where
  "spec_strip_trailing_slash url = rev (dropWhile (\<lambda>c. c = code CHR ''/'') (rev url))"

definition spec_synthesize :: "pystr \<Rightarrow> string \<Rightarrow> pystr \<Rightarrow> datetime \<Rightarrow> WhatsAppProfile" where
  "spec_synthesize identifier h media_base_url now =
     (let registered = (spec_hex h 12 14 mod 3 \<noteq> 0) in
      \<lparr>number = identifier,
       is_registered = registered,
       profile_picture =
         (if registered
          then spec_strip_trailing_slash media_base_url @ str_of (''/'' @ take 16 h @ ''.jpg'')
          else []),
       about =
         (if registered
          then ABOUT_TEMPLATES ! nat (spec_hex h 8 12 mod int (length ABOUT_TEMPLATES))
          else []),
       about_last_updated =
         str_of (spec_iso8601_utc (spec_truncate_seconds (spec_reference_time now h))),
       account_type = str_of (if spec_hex h 14 16 mod 5 = 0 then ''business'' else ''personal'')\<rparr>)"

section \<open>Properties of the validator\<close>

lemma lstrip_no_space: "s \<noteq> [] \<Longrightarrow> \<not> isspace (hd s) \<Longrightarrow> lstrip s = s"
  by (cases s) (simp_all add: lstrip_def)

lemma rstrip_no_space: "s \<noteq> [] \<Longrightarrow> \<not> isspace (last s) \<Longrightarrow> rstrip s = s"
  by (cases s rule: rev_cases) (simp_all add: rstrip_def)

lemma ascii_digit_decimal: "ascii_digit c \<Longrightarrow> isdecimal c"
  by (simp add: ascii_digit_def isdecimal_def decimal_starts_def)

lemma isdecimal_below_1632: "c < 1632 \<Longrightarrow> isdecimal c = ascii_digit c"
  by (simp add: ascii_digit_def isdecimal_def decimal_starts_def) arith

lemma isspace_not_decimal: "isspace c \<Longrightarrow> \<not> isdecimal c"
  unfolding isspace_def
  by (elim disjE insertE emptyE conjE) (simp_all add: isdecimal_def decimal_starts_def)

lemma isdecimal_not_space: "isdecimal c \<Longrightarrow> \<not> isspace c"
  using isspace_not_decimal by blast

lemma strip_digits: "fullmatch_digits s \<Longrightarrow> strip s = s"
proof -
  assume d: "fullmatch_digits s"
  then have ne: "s \<noteq> []" and all: "list_all isdecimal s"
    by (simp_all add: fullmatch_digits_def)
  from ne all have "isdecimal (hd s)" and "isdecimal (last s)"
    by (simp_all add: list_all_iff)
  then have "\<not> isspace (hd s)" and "\<not> isspace (last s)"
    by (simp_all add: isdecimal_not_space)
  with ne show "strip s = s"
    by (simp add: strip_def lstrip_no_space rstrip_no_space)
qed

lemma strip_all_space: "list_all isspace w \<Longrightarrow> strip w = []"
proof -
  assume "list_all isspace w"
  then have "lstrip w = []"
    by (simp add: lstrip_def list_all_iff)
  then show "strip w = []"
    by (simp add: strip_def rstrip_def)
qed

lemmas str_eval = str_of_def code_def

lemmas strip_eval = strip_def lstrip_def rstrip_def isspace_def

lemmas digits_eval = fullmatch_digits_def isdecimal_def decimal_starts_def

text \<open>
  C4. The validator trims white space and then applies four rules in order: the trimmed
  text is empty; it is not made of decimal digits only; it has fewer than 6 characters; it
  has more than 20. Each rule fails with its own kind of error, and a text that passes all
  four is returned trimmed. A digit of the second rule is a Unicode decimal digit, as the
  pattern \<open>\d\<close> matches it; among the code points below U+0660, and so among the ASCII
  characters, these are \<open>0\<close> to \<open>9\<close> only. So digit strings of length 5 and 21 are
  rejected, those of length 6 and 20 are accepted, \<open>12a45\<close> fails with the non-digit
  kind, and the empty and the all-white-space texts fail with the empty kind.
\<close>

theorem validate_number_rules:
  "(strip e = [] \<longrightarrow> validate_number e = Inl EmptyNumber) \<and>
   (strip n \<noteq> [] \<and> \<not> list_all isdecimal (strip n) \<longrightarrow>
      validate_number n = Inl (NonDigitNumber n)) \<and>
   (strip t \<noteq> [] \<and> list_all isdecimal (strip t) \<and> length (strip t) < 6 \<longrightarrow>
      validate_number t = Inl (TooShortNumber t)) \<and>
   (list_all isdecimal (strip l) \<and> 20 < length (strip l) \<longrightarrow>
      validate_number l = Inl (TooLongNumber l)) \<and>
   (list_all isdecimal (strip v) \<and> 6 \<le> length (strip v) \<and> length (strip v) \<le> 20 \<longrightarrow>
      validate_number v = Inr (strip v)) \<and>
   distinct [EmptyNumber, NonDigitNumber a, TooShortNumber b, TooLongNumber c] \<and>
   (list_all isdecimal s5 \<and> length s5 = 5 \<longrightarrow> validate_number s5 = Inl (TooShortNumber s5)) \<and>
   (list_all isdecimal s21 \<and> length s21 = 21 \<longrightarrow> validate_number s21 = Inl (TooLongNumber s21)) \<and>
   (list_all isdecimal s6 \<and> (length s6 = 6 \<or> length s6 = 20) \<longrightarrow> validate_number s6 = Inr s6) \<and>
   validate_number (str_of ''12a45'') = Inl (NonDigitNumber (str_of ''12a45'')) \<and>
   validate_number [] = Inl EmptyNumber \<and>
   (list_all isspace w \<longrightarrow> validate_number w = Inl EmptyNumber) \<and>
   (d < 1632 \<longrightarrow> isdecimal d = (48 \<le> d \<and> d \<le> 57))"
proof -
  have digits: "strip s = s" if "list_all isdecimal s" "s \<noteq> []" for s
    using that by (simp add: strip_digits fullmatch_digits_def)
  have r1: "strip e = [] \<longrightarrow> validate_number e = Inl EmptyNumber"
    by (simp add: validate_number_def)
  have r2: "strip n \<noteq> [] \<and> \<not> list_all isdecimal (strip n) \<longrightarrow>
      validate_number n = Inl (NonDigitNumber n)"
    by (simp add: validate_number_def fullmatch_digits_def)
  have r3: "strip t \<noteq> [] \<and> list_all isdecimal (strip t) \<and> length (strip t) < 6 \<longrightarrow>
      validate_number t = Inl (TooShortNumber t)"
    by (simp add: validate_number_def fullmatch_digits_def)
  have r4: "list_all isdecimal (strip l) \<and> 20 < length (strip l) \<longrightarrow>
      validate_number l = Inl (TooLongNumber l)"
    by (auto simp: validate_number_def fullmatch_digits_def Let_def)
  have r5: "list_all isdecimal (strip v) \<and> 6 \<le> length (strip v) \<and> length (strip v) \<le> 20 \<longrightarrow>
      validate_number v = Inr (strip v)"
    by (auto simp: validate_number_def fullmatch_digits_def Let_def)
  have r6: "distinct [EmptyNumber, NonDigitNumber a, TooShortNumber b, TooLongNumber c]"
    by simp
  have r7: "list_all isdecimal s5 \<and> length s5 = 5 \<longrightarrow> validate_number s5 = Inl (TooShortNumber s5)"
  proof (intro impI, elim conjE)
    assume h: "list_all isdecimal s5" "length s5 = 5"
    then have "s5 \<noteq> []" by auto
    with h show "validate_number s5 = Inl (TooShortNumber s5)"
      by (simp add: validate_number_def digits fullmatch_digits_def Let_def)
  qed
  have r8: "list_all isdecimal s21 \<and> length s21 = 21 \<longrightarrow> validate_number s21 = Inl (TooLongNumber s21)"
  proof (intro impI, elim conjE)
    assume h: "list_all isdecimal s21" "length s21 = 21"
    then have "s21 \<noteq> []" by auto
    with h show "validate_number s21 = Inl (TooLongNumber s21)"
      by (simp add: validate_number_def digits fullmatch_digits_def Let_def)
  qed
  have r9: "list_all isdecimal s6 \<and> (length s6 = 6 \<or> length s6 = 20) \<longrightarrow> validate_number s6 = Inr s6"
  proof (intro impI, elim conjE)
    assume h: "list_all isdecimal s6" "length s6 = 6 \<or> length s6 = 20"
    then have "s6 \<noteq> []" by auto
    with h show "validate_number s6 = Inr s6"
      by (auto simp: validate_number_def digits fullmatch_digits_def Let_def)
  qed
  have r10: "validate_number (str_of ''12a45'') = Inl (NonDigitNumber (str_of ''12a45''))"
    by (simp add: validate_number_def str_eval strip_eval digits_eval)
  have r11: "validate_number [] = Inl EmptyNumber"
    by (simp add: validate_number_def strip_def lstrip_def rstrip_def)
  have r12: "list_all isspace w \<longrightarrow> validate_number w = Inl EmptyNumber"
    by (simp add: validate_number_def strip_all_space)
  have r13: "d < 1632 \<longrightarrow> isdecimal d = (48 \<le> d \<and> d \<le> 57)"
    by (simp add: isdecimal_below_1632 ascii_digit_def)
  from r1 r2 r3 r4 r5 r6 r7 r8 r9 r10 r11 r12 r13 show ?thesis
    by (intro conjI)
qed

theorem validate_number_rules_witness:
  "validate_number (str_of '' '') = Inl EmptyNumber \<and>
   validate_number (str_of '' 12 45'') = Inl (NonDigitNumber (str_of '' 12 45'')) \<and>
   validate_number (str_of '' 123 '') = Inl (TooShortNumber (str_of '' 123 '')) \<and>
   validate_number (str_of ''123456789012345678901 '')
     = Inl (TooLongNumber (str_of ''123456789012345678901 '')) \<and>
   validate_number (str_of '' 1234567890 '') = Inr (str_of ''1234567890'') \<and>
   validate_number (str_of ''12345'') = Inl (TooShortNumber (str_of ''12345'')) \<and>
   validate_number (str_of ''123456789012345678901'')
     = Inl (TooLongNumber (str_of ''123456789012345678901'')) \<and>
   validate_number (str_of ''123456'') = Inr (str_of ''123456'') \<and>
   validate_number (str_of ''12345678901234567890'') = Inr (str_of ''12345678901234567890'') \<and>
   \<not> isdecimal 97"
  using validate_number_rules [of "str_of '' ''" "str_of '' 12 45''" "str_of '' 123 ''"
      "str_of ''123456789012345678901 ''" "str_of '' 1234567890 ''" "[]" "[]" "[]"
      "str_of ''12345''" "str_of ''123456789012345678901''" "str_of ''123456''" "str_of '' ''" 97]
    validate_number_rules [of "[]" "[120]" "[49]" "[]" "str_of ''12345678901234567890''" "[]" "[]"
      "[]" "str_of ''12345''" "str_of ''123456789012345678901''" "str_of ''12345678901234567890''"
      "[]" 97]
  by (simp add: str_eval strip_eval digits_eval)

text \<open>
  C4, the digits. The second rule does not reject every character that is not an ASCII
  digit: the six Arabic-Indic digits U+0661 to U+0666, none of which is an ASCII digit,
  pass the validator and are returned as the identifier.
\<close>

theorem validate_number_accepts_arabic_indic_digits:
  "validate_number [1633, 1634, 1635, 1636, 1637, 1638]
     = Inr [1633, 1634, 1635, 1636, 1637, 1638] \<and>
   \<not> list_ex ascii_digit [1633, 1634, 1635, 1636, 1637, 1638]"
  by (simp add: validate_number_def strip_eval digits_eval ascii_digit_def)


section \<open>The digest and the builder\<close>

lemma hex32_length: "length (hex32 w) = 8"
  by (simp add: hex32_def)

lemma hexdigest_length: "length (hexdigest m) = 64"
  by (simp add: hexdigest_def hex32_length split: prod.splits)

lemma sha256_hex_length: "length (sha256_hex n) = 64"
  by (simp add: sha256_hex_def hexdigest_length)

lemma hexdigits_ok: "list_all ishex ''0123456789abcdef''"
  by (simp add: ishex_def hexval_def code_def)

lemma hexdigit_ok: "0 \<le> d \<Longrightarrow> d < 16 \<Longrightarrow> ishex (hexdigit d)"
proof -
  assume "0 \<le> d" "d < 16"
  then have "nat d < length ''0123456789abcdef''" by simp
  then have "''0123456789abcdef'' ! nat d \<in> set ''0123456789abcdef''"
    by (rule nth_mem)
  with hexdigits_ok show ?thesis
    unfolding hexdigit_def list_all_iff by blast
qed

lemma hex32_ok: "list_all ishex (hex32 w)"
  by (simp add: hex32_def hexdigit_ok)

lemma hexdigest_ok: "list_all ishex (hexdigest m)"
  by (simp add: hexdigest_def hex32_ok split: prod.splits)

lemma sha256_hex_ok: "list_all ishex (sha256_hex n)"
  by (simp add: sha256_hex_def hexdigest_ok)

lemma int16_slice_hash:
  assumes "a < b" "b \<le> 64"
  shows "int16 (slice a b (sha256_hex n)) = Inr (hexnum (slice a b (sha256_hex n)))"
proof -
  have "length (slice a b (sha256_hex n)) = b - a"
    using assms by (simp add: slice_def sha256_hex_length)
  with assms have ne: "slice a b (sha256_hex n) \<noteq> []" by auto
  have "set (slice a b (sha256_hex n)) \<subseteq> set (sha256_hex n)"
    unfolding slice_def by (meson set_take_subset set_drop_subset subset_trans)
  with sha256_hex_ok [of n] have "list_all ishex (slice a b (sha256_hex n))"
    unfolding list_all_iff by blast
  with ne show ?thesis by (simp add: int16_def)
qed

lemma and_then_simps [simp]: "and_then (Inr x) f = f x" "and_then (Inl e) f = Inl e"
  by (simp_all add: and_then_def)

lemma digit_char_not_plus: "d < 10 \<Longrightarrow> digit_char d \<noteq> CHR ''+''"
proof -
  assume "d < 10"
  then have "d < length ''0123456789''" by simp
  then have "''0123456789'' ! d \<in> set ''0123456789''" by (rule nth_mem)
  moreover have "CHR ''+'' \<notin> set ''0123456789''" by simp
  ultimately show ?thesis unfolding digit_char_def by metis
qed

lemma str_nat_no_plus: "CHR ''+'' \<notin> set (str_nat n)"
proof (induction n rule: str_nat.induct)
  case (1 n)
  show ?case
  proof (cases "n < 10")
    case True
    then show ?thesis
      using digit_char_not_plus [of n] by (subst str_nat.simps) auto
  next
    case False
    have "n mod 10 < 10" by simp
    then have "digit_char (n mod 10) \<noteq> CHR ''+''" by (rule digit_char_not_plus)
    with False 1 show ?thesis
      by (subst str_nat.simps) auto
  qed
qed

lemma zfill_no_plus: "CHR ''+'' \<notin> set (zfill w n)"
  using str_nat_no_plus [of n] by (auto simp: zfill_def)

lemma replace_plus_suffix:
  "CHR ''+'' \<notin> set pre \<Longrightarrow> replace_str ''+00:00'' ''Z'' (pre @ ''+00:00'') = pre @ ''Z''"
proof (induction pre)
  case Nil
  show ?case
    by (subst replace_str.simps, simp, subst replace_str.simps, simp)
next
  case (Cons c cs)
  then have c: "c \<noteq> CHR ''+''" and cs: "CHR ''+'' \<notin> set cs" by auto
  from Cons.IH cs have ih: "replace_str ''+00:00'' ''Z'' (cs @ ''+00:00'') = cs @ ''Z''" by simp
  show ?case
    using c ih by (subst replace_str.simps) simp
qed

lemma replace_microsecond0_eq: "replace_microsecond0 t = spec_truncate_seconds t"
  by (simp add: replace_microsecond0_def spec_truncate_seconds_def minus_mod_eq_div_mult)

lemma isoformat_whole_seconds:
  "replace_str ''+00:00'' ''Z'' (isoformat (spec_truncate_seconds t)) =
   spec_iso8601_utc (spec_truncate_seconds t)"
proof -
  define u where "u = spec_truncate_seconds t"
  define ymd where "ymd = ord2ymd (nat (u div day_us) + 1)"
  define s where "s = nat (u div 1000000 mod 86400)"
  define pre where "pre = zfill 4 (fst ymd) @ ''-'' @ zfill 2 (fst (snd ymd)) @ ''-'' @ zfill 2 (snd (snd ymd))
         @ ''T'' @ zfill 2 (s div 3600) @ '':'' @ zfill 2 (s div 60 mod 60) @ '':'' @ zfill 2 (s mod 60)"
  have us: "u mod 1000000 = 0"
    by (simp add: u_def spec_truncate_seconds_def)
  have iso: "isoformat u = pre @ ''+00:00''"
    by (simp add: isoformat_def Let_def us pre_def ymd_def s_def)
  have spec: "spec_iso8601_utc u = pre @ ''Z''"
    by (simp add: spec_iso8601_utc_def Let_def pre_def ymd_def s_def)
  have "CHR ''+'' \<notin> set pre"
    by (simp add: pre_def zfill_no_plus)
  then have "replace_str ''+00:00'' ''Z'' (pre @ ''+00:00'') = pre @ ''Z''"
    by (rule replace_plus_suffix)
  with iso spec show ?thesis by (simp add: u_def)
qed

lemma timedelta_eq:
  "now - timedelta (spec_hex h 0 4 mod 365) (spec_hex h 4 6 mod 24) (spec_hex h 6 8 mod 60) =
   spec_reference_time now h"
  by (simp add: timedelta_def spec_reference_time_def day_us_def algebra_simps)

lemma rstrip_chars_slash: "rstrip_chars (str_of ''/'') url = spec_strip_trailing_slash url"
  by (simp add: rstrip_chars_def spec_strip_trailing_slash_def str_of_def)

lemma str_of_append: "str_of a @ str_of b = str_of (a @ b)"
  by (simp add: str_of_def)

lemma isdecimal_not_surrogate: "isdecimal c \<Longrightarrow> \<not> surrogate c"
  by (simp add: isdecimal_def decimal_starts_def surrogate_def) arith

lemma hash_number_digits: "list_all isdecimal s \<Longrightarrow> hash_number s = Inr (sha256_hex s)"
proof -
  assume "list_all isdecimal s"
  then have "\<not> list_ex surrogate s"
    by (auto simp: list_all_iff list_ex_iff isdecimal_not_surrogate)
  then show ?thesis
    by (simp add: hash_number_def encode_utf8_def sha256_hex_def)
qed

lemma validate_number_digits: "validate_number raw = Inr ident \<Longrightarrow> list_all isdecimal ident"
  by (auto simp: validate_number_def Let_def fullmatch_digits_def split: if_splits)

lemma hash_number_valid:
  "validate_number raw = Inr ident \<Longrightarrow> hash_number ident = Inr (sha256_hex ident)"
  by (simp add: hash_number_digits validate_number_digits)

lemma build_profile_valid:
  assumes "validate_number raw = Inr ident"
  shows "build_profile now raw url =
     (if valid_datetime (spec_reference_time now (sha256_hex ident))
      then Inr (spec_synthesize ident (sha256_hex ident) url now)
      else Inl DateOverflow)"
proof -
  have tpl: "ABOUT_TEMPLATES \<noteq> []" by (simp add: ABOUT_TEMPLATES_def)
  show ?thesis
    unfolding build_profile_def deterministic_datetime_def deterministic_choice_def
    using assms tpl hash_number_valid [OF assms]
    by (simp add: int16_slice_hash Let_def datetime_sub_def spec_synthesize_def
        replace_microsecond0_eq isoformat_whole_seconds rstrip_chars_slash str_of_append
        timedelta_eq [unfolded spec_hex_def] spec_hex_def)
qed

lemma replicate_numeral: "replicate (numeral k) x = x # replicate (pred_numeral k) x"
  by (simp add: numeral_eq_Suc)

lemmas sha256_eval = sha256_hex_def utf8_bytes_def utf8_char_def str_of_def code_def hexdigest_def sha256_def pad_def
  be64_def replicate_numeral blocks.simps compress_def K256_def H256_def next_w_def bsig0_def
  bsig1_def ssig0_def ssig1_def ch_def maj_def rotr_def shr_def not32_def hex32_def hexdigit_def

lemma hash_1234567890:
  "sha256_hex [49, 50, 51, 52, 53, 54, 55, 56, 57, 48] = ''c775e7b757ede630cd0aa1113bd102661ab38829ca52a6422ab782862f268646''"
  by (simp add: sha256_eval)

lemma hash_9876543210:
  "sha256_hex [57, 56, 55, 54, 53, 52, 51, 50, 49, 48] = ''7619ee8cea49187f309616e30ecf54be072259b43760f1f550a644945d5572f2''"
  by (simp add: sha256_eval)

lemmas synth_eval = spec_synthesize_def spec_hex_def slice_def hexnum_def hexval_def code_def str_of_def
  ABOUT_TEMPLATES_def spec_iso8601_utc_def spec_truncate_seconds_def spec_reference_time_def
  spec_strip_trailing_slash_def day_us_def ord2ymd_def days_before_month_def days_in_month_def
  zfill_def str_nat.simps digit_char_def Let_def valid_datetime_def MAXORDINAL_def

lemma validate_1234567890: "validate_number (str_of '' 1234567890 '') = Inr (str_of ''1234567890'')"
  by (simp add: validate_number_def strip_def lstrip_def rstrip_def isspace_def code_def
      fullmatch_digits_def isdecimal_def decimal_starts_def str_of_def)

lemma profile_1234567890:
  "validate_number raw = Inr (str_of ''1234567890'') \<Longrightarrow>
   build_profile 63840918645123456 raw (str_of ''https://cdn.example.com/whatsapp/avatars/'') =
   Inr \<lparr>number = (str_of ''1234567890''), is_registered = True,
        profile_picture = (str_of ''https://cdn.example.com/whatsapp/avatars/c775e7b757ede630.jpg''),
        about = (str_of ''Just another human on the internet.''),
        about_last_updated = (str_of ''2023-02-22T21:27:45Z''),
        account_type = (str_of ''personal'')\<rparr>"
  by (simp add: build_profile_valid hash_1234567890 synth_eval)

lemma profile_9876543210:
  "validate_number raw = Inr (str_of ''9876543210'') \<Longrightarrow>
   build_profile 63840918645123456 raw (str_of ''https://cdn.example.com/whatsapp/avatars/'') =
   Inr \<lparr>number = (str_of ''9876543210''), is_registered = False,
        profile_picture = [],
        about = [],
        about_last_updated = (str_of ''2023-03-17T14:10:45Z''),
        account_type = (str_of ''personal'')\<rparr>"
  by (simp add: build_profile_valid hash_9876543210 synth_eval)

lemma validate_9876543210: "validate_number (str_of ''9876543210'') = Inr (str_of ''9876543210'')"
  by (simp add: validate_number_def strip_def lstrip_def rstrip_def isspace_def code_def
      fullmatch_digits_def isdecimal_def decimal_starts_def str_of_def)

lemma validate_number_Inr: "validate_number raw = Inr ident \<Longrightarrow> strip raw = ident"
  by (simp add: validate_number_def Let_def split: if_splits)

lemma build_profile_Inr:
  assumes "build_profile now raw url = Inr p"
  shows "validate_number raw = Inr (number p) \<and>
         valid_datetime (spec_reference_time now (sha256_hex (number p))) \<and>
         p = spec_synthesize (number p) (sha256_hex (number p)) url now"
proof (cases "validate_number raw")
  case (Inl e)
  with assms show ?thesis by (simp add: build_profile_def)
next
  case (Inr ident)
  from build_profile_valid [OF Inr, of now url] assms
  have v: "valid_datetime (spec_reference_time now (sha256_hex ident))"
    and p: "p = spec_synthesize ident (sha256_hex ident) url now"
    by (simp_all split: if_splits)
  from p have "number p = ident" by (simp add: spec_synthesize_def Let_def)
  with Inr v p show ?thesis by simp
qed

lemma build_loop_acc:
  "build_loop clock xs url ps lg =
     (ps @ fst (build_loop clock xs url [] []), lg @ snd (build_loop clock xs url [] []))"
proof (induction xs arbitrary: clock ps lg)
  case Nil
  show ?case by simp
next
  case (Cons raw rest)
  show ?case
  proof (cases "build_profile (clock 0) raw url")
    case (Inl e)
    then show ?thesis
      using Cons.IH [of "\<lambda>i. clock (Suc i)" ps "lg @ [Warning raw e]"]
        Cons.IH [of "\<lambda>i. clock (Suc i)" "[]" "[Warning raw e]"]
      by simp
  next
    case (Inr p)
    then show ?thesis
      using Cons.IH [of "\<lambda>i. clock (Suc i)" "ps @ [to_dict p]" lg]
        Cons.IH [of "\<lambda>i. clock (Suc i)" "[to_dict p]" "[]"]
      by simp
  qed
qed

lemma build_profiles_Nil: "build_profiles clock [] url = ([], [])"
  by (simp add: build_profiles_def)

lemma build_profiles_Cons:
  "build_profiles clock (raw # rest) url =
     (case build_profile (clock 0) raw url of
        Inr p \<Rightarrow> (to_dict p # fst (build_profiles (\<lambda>i. clock (Suc i)) rest url),
                  snd (build_profiles (\<lambda>i. clock (Suc i)) rest url))
      | Inl e \<Rightarrow> (fst (build_profiles (\<lambda>i. clock (Suc i)) rest url),
                  Warning raw e # snd (build_profiles (\<lambda>i. clock (Suc i)) rest url)))"
proof (cases "build_profile (clock 0) raw url")
  case (Inl e)
  then show ?thesis
    using build_loop_acc [of "\<lambda>i. clock (Suc i)" rest url "[]" "[Warning raw e]"]
    by (simp add: build_profiles_def)
next
  case (Inr p)
  then show ?thesis
    using build_loop_acc [of "\<lambda>i. clock (Suc i)" rest url "[to_dict p]" "[]"]
    by (simp add: build_profiles_def)
qed

lemma reference_time_valid:
  assumes "reading_in_range now"
  shows "valid_datetime (spec_reference_time now h)"
proof -
  have a: "0 \<le> spec_hex h 0 4 mod 365" "spec_hex h 0 4 mod 365 \<le> 364" by simp_all
  have b: "0 \<le> spec_hex h 4 6 mod 24" "spec_hex h 4 6 mod 24 \<le> 23" by simp_all
  have c: "0 \<le> spec_hex h 6 8 mod 60" "spec_hex h 6 8 mod 60 \<le> 59" by simp_all
  from assms a b c show ?thesis
    unfolding spec_reference_time_def valid_datetime_def reading_in_range_def day_us_def
      MAXORDINAL_def
    by linarith
qed

lemma build_profile_in_range:
  assumes "reading_in_range now"
  shows "build_profile now raw url =
     (case validate_number raw of
        Inl e \<Rightarrow> Inl e
      | Inr ident \<Rightarrow> Inr (spec_synthesize ident (sha256_hex ident) url now))"
proof (cases "validate_number raw")
  case (Inl e)
  then show ?thesis by (simp add: build_profile_def)
next
  case (Inr ident)
  with reference_time_valid [OF assms] show ?thesis
    by (simp add: build_profile_valid)
qed


lemma clock_in_range_shift:
  "clock_in_range (\<lambda>i. clock (k + i)) (Suc n) \<Longrightarrow>
   reading_in_range (clock k) \<and> clock_in_range (\<lambda>i. clock (Suc k + i)) n"
  by simp

lemma build_profiles_enumerate:
  "clock_in_range (\<lambda>i. clock (k + i)) (length xs) \<Longrightarrow>
   build_profiles (\<lambda>i. clock (k + i)) xs url =
     (concat (map (\<lambda>(i, raw). case validate_number raw of
                     Inr ident \<Rightarrow> [to_dict (spec_synthesize ident (sha256_hex ident) url (clock i))]
                   | Inl e \<Rightarrow> []) (enumerate k xs)),
      concat (map (\<lambda>raw. case validate_number raw of
                     Inr ident \<Rightarrow> []
                   | Inl e \<Rightarrow> [Warning raw e]) xs))"
proof (induction xs arbitrary: k)
  case Nil
  show ?case by (simp add: build_profiles_Nil)
next
  case (Cons raw rest)
  from Cons.prems have r: "reading_in_range (clock k)"
    and c: "clock_in_range (\<lambda>i. clock (Suc k + i)) (length rest)"
    by simp_all
  from Cons.IH [OF c] have ih:
    "build_profiles (\<lambda>i. clock (Suc (k + i))) rest url =
     (concat (map (\<lambda>(i, raw). case validate_number raw of
                     Inr ident \<Rightarrow> [to_dict (spec_synthesize ident (sha256_hex ident) url (clock i))]
                   | Inl e \<Rightarrow> []) (enumerate (Suc k) rest)),
      concat (map (\<lambda>raw. case validate_number raw of
                     Inr ident \<Rightarrow> []
                   | Inl e \<Rightarrow> [Warning raw e]) rest))"
    by simp
  show ?case
    by (cases "validate_number raw")
       (simp_all add: build_profiles_Cons build_profile_in_range [OF r] ih)
qed

lemma build_profiles_in_range:
  assumes "clock_in_range clock (length xs)"
  shows "build_profiles clock xs url =
     (concat (map (\<lambda>(i, raw). case validate_number raw of
                     Inr ident \<Rightarrow> [to_dict (spec_synthesize ident (sha256_hex ident) url (clock i))]
                   | Inl e \<Rightarrow> []) (enumerate 0 xs)),
      concat (map (\<lambda>raw. case validate_number raw of
                     Inr ident \<Rightarrow> []
                   | Inl e \<Rightarrow> [Warning raw e]) xs))"
  using build_profiles_enumerate [of clock 0 xs url] assms by simp

lemma number_of_synthesize:
  "number_of (to_dict (spec_synthesize ident h url now)) = Some (VStr ident)"
  by (simp add: number_of_def to_dict_def spec_synthesize_def Let_def)

lemma valid_identifier_Inr: "validate_number raw = Inr ident \<Longrightarrow> valid_identifier raw"
  by (simp add: valid_identifier_def)

lemma valid_identifier_Inl: "validate_number raw = Inl e \<Longrightarrow> \<not> valid_identifier raw"
  by (simp add: valid_identifier_def)

lemma numbers_of_profiles:
  "map number_of (concat (map (\<lambda>(i, raw). case validate_number raw of
                     Inr ident \<Rightarrow> [to_dict (spec_synthesize ident (sha256_hex ident) url (clock i))]
                   | Inl e \<Rightarrow> []) (enumerate k xs))) =
   map (\<lambda>raw. Some (VStr (strip raw))) (filter valid_identifier xs)"
proof (induction xs arbitrary: k)
  case Nil
  show ?case by simp
next
  case (Cons raw rest)
  show ?case
  proof (cases "validate_number raw")
    case (Inl e)
    then show ?thesis by (simp add: Cons.IH valid_identifier_Inl)
  next
    case (Inr ident)
    then have "strip raw = ident" by (rule validate_number_Inr)
    with Inr show ?thesis
      by (simp add: Cons.IH valid_identifier_Inr number_of_synthesize)
  qed
qed

lemma build_profiles_all_invalid:
  "list_all (\<lambda>raw. \<not> valid_identifier raw) xs \<Longrightarrow> fst (build_profiles clock xs url) = []"
proof (induction xs arbitrary: clock)
  case Nil
  show ?case by (simp add: build_profiles_Nil)
next
  case (Cons raw rest)
  then obtain e where e: "validate_number raw = Inl e"
    by (cases "validate_number raw") (simp_all add: valid_identifier_Inr)
  then have "build_profile (clock 0) raw url = Inl e"
    by (simp add: build_profile_def)
  with Cons show ?case by (simp add: build_profiles_Cons)
qed

section \<open>Properties of the synthesis\<close>

text \<open>
  C5. For a validated identifier, \<open>_hash_number\<close> returns its digest \<open>h\<close>, the SHA-256 of
  its UTF-8 bytes in hexadecimal; with a reference time from which the offsets can be
  subtracted, the profile built by the program is the one of the
  reference arithmetic: registered iff \<open>int(h[12:14], 16) mod 3\<close> is not 0; business iff
  \<open>int(h[14:16], 16) mod 5\<close> is 0, else personal; when registered, the template at the
  index \<open>int(h[8:12], 16) mod\<close> the number of templates; the time stamp the reference
  time less \<open>int(h[0:4], 16) mod 365\<close> days, \<open>int(h[4:6], 16) mod 24\<close> hours and
  \<open>int(h[6:8], 16) mod 60\<close> minutes, cut to whole seconds, in ISO 8601 with \<open>Z\<close>; when
  registered, the picture is the base URL without trailing slashes, a slash, the first
  16 characters of \<open>h\<close> and \<open>.jpg\<close>.
\<close>

theorem build_profile_reference_arithmetic:
  assumes "validate_number raw = Inr ident"
    and "valid_datetime (spec_reference_time now (sha256_hex ident))"
  shows "hash_number ident = Inr (sha256_hex ident) \<and>
         build_profile now raw url = Inr (spec_synthesize ident (sha256_hex ident) url now)"
  using assms by (simp add: build_profile_valid hash_number_valid)

theorem build_profile_reference_arithmetic_witness:
  "validate_number (str_of '' 1234567890 '') = Inr (str_of ''1234567890'') \<and>
   valid_datetime (spec_reference_time 63840918645123456 (sha256_hex (str_of ''1234567890''))) \<and>
   build_profile 63840918645123456 (str_of '' 1234567890 '') (str_of ''https://cdn.example.com/whatsapp/avatars/'') =
   Inr \<lparr>number = (str_of ''1234567890''), is_registered = True,
        profile_picture = (str_of ''https://cdn.example.com/whatsapp/avatars/c775e7b757ede630.jpg''),
        about = (str_of ''Just another human on the internet.''),
        about_last_updated = (str_of ''2023-02-22T21:27:45Z''),
        account_type = (str_of ''personal'')\<rparr>"
proof -
  have v: "validate_number (str_of '' 1234567890 '') = Inr (str_of ''1234567890'')"
    by (rule validate_1234567890)
  have t: "valid_datetime (spec_reference_time 63840918645123456 (sha256_hex (str_of ''1234567890'')))"
    by (simp add: hash_1234567890 synth_eval)
  have "spec_synthesize (str_of ''1234567890'') (sha256_hex (str_of ''1234567890''))
          (str_of ''https://cdn.example.com/whatsapp/avatars/'') 63840918645123456 =
        \<lparr>number = (str_of ''1234567890''), is_registered = True,
         profile_picture = (str_of ''https://cdn.example.com/whatsapp/avatars/c775e7b757ede630.jpg''),
         about = (str_of ''Just another human on the internet.''),
         about_last_updated = (str_of ''2023-02-22T21:27:45Z''),
         account_type = (str_of ''personal'')\<rparr>"
    by (simp add: hash_1234567890 synth_eval)
  with build_profile_reference_arithmetic [OF v t, of "(str_of ''https://cdn.example.com/whatsapp/avatars/'')"] v t
  show ?thesis by simp
qed

text \<open>
  C3. Every profile that the builder returns with \<open>is_registered\<close> false has the empty
  text as \<open>about\<close> and as \<open>profile_picture\<close>, whatever the identifier, the base URL and
  the reading of the clock.
\<close>

theorem unregistered_profile_empty:
  assumes "build_profile now raw url = Inr p" and "\<not> is_registered p"
  shows "about p = [] \<and> profile_picture p = []"
proof -
  from build_profile_Inr [OF assms(1)]
  have p: "p = spec_synthesize (number p) (sha256_hex (number p)) url now" by simp
  have "\<not> is_registered (spec_synthesize i h url now) \<Longrightarrow>
        about (spec_synthesize i h url now) = [] \<and> profile_picture (spec_synthesize i h url now) = []"
    for i h
    by (simp add: spec_synthesize_def Let_def)
  with assms(2) p show ?thesis by metis
qed

theorem unregistered_profile_empty_witness:
  "build_profile 63840918645123456 (str_of ''9876543210'') (str_of ''https://cdn.example.com/whatsapp/avatars/'') =
     Inr \<lparr>number = (str_of ''9876543210''), is_registered = False, profile_picture = [], about = [],
          about_last_updated = (str_of ''2023-03-17T14:10:45Z''), account_type = (str_of ''personal'')\<rparr> \<and>
   about \<lparr>number = (str_of ''9876543210''), is_registered = False, profile_picture = [], about = [],
          about_last_updated = (str_of ''2023-03-17T14:10:45Z''), account_type = (str_of ''personal'')\<rparr> = [] \<and>
   profile_picture \<lparr>number = (str_of ''9876543210''), is_registered = False, profile_picture = [], about = [],
          about_last_updated = (str_of ''2023-03-17T14:10:45Z''), account_type = (str_of ''personal'')\<rparr> = []"
proof -
  have b: "build_profile 63840918645123456 (str_of ''9876543210'') (str_of ''https://cdn.example.com/whatsapp/avatars/'') =
     Inr \<lparr>number = (str_of ''9876543210''), is_registered = False, profile_picture = [], about = [],
          about_last_updated = (str_of ''2023-03-17T14:10:45Z''), account_type = (str_of ''personal'')\<rparr>"
    by (rule profile_9876543210 [OF validate_9876543210])
  have r: "\<not> is_registered \<lparr>number = (str_of ''9876543210''), is_registered = False, profile_picture = [],
          about = [], about_last_updated = (str_of ''2023-03-17T14:10:45Z''), account_type = (str_of ''personal'')\<rparr>"
    by simp
  from unregistered_profile_empty [OF b r] b show ?thesis by simp
qed

text \<open>
  C2. The profile is a function of the identifier, the base URL and the reading of the
  clock: two runs of the builder on inputs that validate to the same identifier, with the
  same base URL and the same reading, return the same result, and the digest of an
  identifier is the same in every run.
\<close>

theorem build_profile_deterministic:
  assumes "validate_number raw1 = Inr ident" and "validate_number raw2 = Inr ident"
    and "now1 = now2" and "url1 = url2"
  shows "build_profile now1 raw1 url1 = build_profile now2 raw2 url2 \<and>
         hash_number (strip raw1) = hash_number (strip raw2)"
proof -
  from assms have "build_profile now1 raw1 url1 = build_profile now2 raw2 url2"
    by (simp add: build_profile_valid)
  moreover from assms(1,2) have "strip raw1 = ident" and "strip raw2 = ident"
    by (simp_all add: validate_number_Inr)
  ultimately show ?thesis by simp
qed

theorem build_profile_deterministic_witness:
  "validate_number (str_of '' 1234567890 '') = Inr (str_of ''1234567890'') \<and>
   validate_number (str_of ''1234567890'') = Inr (str_of ''1234567890'') \<and>
   build_profile 63840918645123456 (str_of '' 1234567890 '') (str_of ''https://cdn.example.com/whatsapp/avatars/'') =
   build_profile 63840918645123456 (str_of ''1234567890'') (str_of ''https://cdn.example.com/whatsapp/avatars/'')"
proof -
  have v1: "validate_number (str_of '' 1234567890 '') = Inr (str_of ''1234567890'')"
    by (rule validate_1234567890)
  have v2: "validate_number (str_of ''1234567890'') = Inr (str_of ''1234567890'')"
    by (simp add: validate_number_def strip_def lstrip_def rstrip_def isspace_def code_def
        fullmatch_digits_def isdecimal_def decimal_starts_def str_of_def)
  from build_profile_deterministic [OF v1 v2 refl refl] v1 v2 show ?thesis by simp
qed


section \<open>Properties of the batch assembly\<close>

text \<open>
  C6. The batch assembly has no failing outcome. When the readings of the clock are in
  range, the profiles it returns are those of the valid inputs, one for each, in the order
  of the input: the numbers of the returned records are the trimmed valid inputs, in
  order, with repetitions kept. When every input is invalid, the returned sequence is
  empty.
\<close>

theorem build_profiles_skips_invalid:
  "(clock_in_range clock (length numbers) \<longrightarrow>
      fst (build_profiles clock numbers url) =
        concat (map (\<lambda>(i, raw). case validate_number raw of
                       Inr ident \<Rightarrow> [to_dict (spec_synthesize ident (sha256_hex ident) url (clock i))]
                     | Inl e \<Rightarrow> []) (enumerate 0 numbers)) \<and>
      map number_of (fst (build_profiles clock numbers url)) =
        map (\<lambda>raw. Some (VStr (strip raw))) (filter valid_identifier numbers) \<and>
      length (fst (build_profiles clock numbers url)) = length (filter valid_identifier numbers)) \<and>
   (list_all (\<lambda>raw. \<not> valid_identifier raw) invalid \<longrightarrow>
      fst (build_profiles clock invalid url) = [])"
proof (intro conjI impI)
  assume c: "clock_in_range clock (length numbers)"
  show f: "fst (build_profiles clock numbers url) =
        concat (map (\<lambda>(i, raw). case validate_number raw of
                       Inr ident \<Rightarrow> [to_dict (spec_synthesize ident (sha256_hex ident) url (clock i))]
                     | Inl e \<Rightarrow> []) (enumerate 0 numbers))"
    by (simp add: build_profiles_in_range [OF c])
  show n: "map number_of (fst (build_profiles clock numbers url)) =
        map (\<lambda>raw. Some (VStr (strip raw))) (filter valid_identifier numbers)"
    unfolding f by (rule numbers_of_profiles)
  from arg_cong [OF n, of length]
  show "length (fst (build_profiles clock numbers url)) = length (filter valid_identifier numbers)"
    by simp
next
  assume "list_all (\<lambda>raw. \<not> valid_identifier raw) invalid"
  then show "fst (build_profiles clock invalid url) = []"
    by (rule build_profiles_all_invalid)
qed

theorem build_profiles_skips_invalid_witness:
  "clock_in_range (\<lambda>i. 63840918645123456) (length [(str_of ''12345''), (str_of ''1234567890''), (str_of ''abc123''), (str_of '' 1234567890'')]) \<and>
   map number_of (fst (build_profiles (\<lambda>i. 63840918645123456)
       [(str_of ''12345''), (str_of ''1234567890''), (str_of ''abc123''), (str_of '' 1234567890'')]
       (str_of ''https://cdn.example.com/whatsapp/avatars/''))) =
     [Some (VStr (str_of ''1234567890'')), Some (VStr (str_of ''1234567890''))] \<and>
   list_all (\<lambda>raw. \<not> valid_identifier raw) [(str_of ''12345''), (str_of ''abc123'')] \<and>
   fst (build_profiles (\<lambda>i. 63840918645123456) [(str_of ''12345''), (str_of ''abc123'')]
       (str_of ''https://cdn.example.com/whatsapp/avatars/'')) = []"
  using build_profiles_skips_invalid [of "\<lambda>i. 63840918645123456"
      "[(str_of ''12345''), (str_of ''1234567890''), (str_of ''abc123''), (str_of '' 1234567890'')]"
      "(str_of ''https://cdn.example.com/whatsapp/avatars/'')" "[(str_of ''12345''), (str_of ''abc123'')]"]
  by (simp add: reading_in_range_def day_us_def MAXORDINAL_def valid_identifier_def
      number_of_synthesize
      validate_number_def strip_def lstrip_def rstrip_def isspace_def code_def
      fullmatch_digits_def isdecimal_def decimal_starts_def str_of_def)

lemma build_profile_invalid:
  "validate_number raw = Inl e \<Longrightarrow> build_profile now raw url = Inl e"
  by (simp add: build_profile_def)

lemma validate_12345: "validate_number (str_of ''12345'') = Inl (TooShortNumber (str_of ''12345''))"
  by (simp add: validate_number_def strip_def lstrip_def rstrip_def isspace_def code_def
      fullmatch_digits_def isdecimal_def decimal_starts_def str_of_def)

lemma validate_abc123: "validate_number (str_of ''abc123'') = Inl (NonDigitNumber (str_of ''abc123''))"
  by (simp add: validate_number_def strip_def lstrip_def rstrip_def isspace_def code_def
      fullmatch_digits_def isdecimal_def decimal_starts_def str_of_def)

lemma validate_1234567890_plain: "validate_number (str_of ''1234567890'') = Inr (str_of ''1234567890'')"
  by (simp add: validate_number_def strip_def lstrip_def rstrip_def isspace_def code_def
      fullmatch_digits_def isdecimal_def decimal_starts_def str_of_def)

text \<open>
  C7, as the specification states it, fails: the function returns the profile sequence
  and nothing else. For the three inputs of the example it returns the one record of
  \<open>1234567890\<close>, which is also what it returns for that input alone; the two failures
  are warnings in the log.
\<close>

theorem build_profiles_returns_profiles_only:
  "fst (build_profiles (\<lambda>i. 63840918645123456) [(str_of ''12345''), (str_of ''1234567890''), (str_of ''abc123'')]
         (str_of ''https://cdn.example.com/whatsapp/avatars/'')) =
     [to_dict \<lparr>number = (str_of ''1234567890''), is_registered = True,
        profile_picture = (str_of ''https://cdn.example.com/whatsapp/avatars/c775e7b757ede630.jpg''),
        about = (str_of ''Just another human on the internet.''),
        about_last_updated = (str_of ''2023-02-22T21:27:45Z''),
        account_type = (str_of ''personal'')\<rparr>] \<and>
   fst (build_profiles (\<lambda>i. 63840918645123456) [(str_of ''1234567890'')]
         (str_of ''https://cdn.example.com/whatsapp/avatars/'')) =
     [to_dict \<lparr>number = (str_of ''1234567890''), is_registered = True,
        profile_picture = (str_of ''https://cdn.example.com/whatsapp/avatars/c775e7b757ede630.jpg''),
        about = (str_of ''Just another human on the internet.''),
        about_last_updated = (str_of ''2023-02-22T21:27:45Z''),
        account_type = (str_of ''personal'')\<rparr>] \<and>
   snd (build_profiles (\<lambda>i. 63840918645123456) [(str_of ''12345''), (str_of ''1234567890''), (str_of ''abc123'')]
         (str_of ''https://cdn.example.com/whatsapp/avatars/'')) =
     [Warning (str_of ''12345'') (TooShortNumber (str_of ''12345'')), Warning (str_of ''abc123'') (NonDigitNumber (str_of ''abc123''))] \<and>
   snd (build_profiles (\<lambda>i. 63840918645123456) [(str_of ''1234567890'')]
         (str_of ''https://cdn.example.com/whatsapp/avatars/'')) = []"
  by (simp add: build_profiles_Cons build_profiles_Nil
      build_profile_invalid [OF validate_12345] build_profile_invalid [OF validate_abc123]
      profile_1234567890 [OF validate_1234567890_plain])

text \<open>
  C7, amended. The batch assembly returns the profile sequence only; for each input that
  fails it logs one warning, which carries the input and the failure, in the order of the
  input. For the inputs \<open>12345\<close>, \<open>1234567890\<close>, \<open>abc123\<close> it returns exactly one
  profile, that of \<open>1234567890\<close>, and logs exactly two warnings. (The readings of the
  clock are in range.)
\<close>

theorem build_profiles_logs_failures:
  "(clock_in_range clock (length numbers) \<longrightarrow>
      snd (build_profiles clock numbers url) =
        concat (map (\<lambda>raw. case validate_number raw of
                       Inr ident \<Rightarrow> []
                     | Inl e \<Rightarrow> [Warning raw e]) numbers)) \<and>
   (clock_in_range clock' (length [(str_of ''12345''), (str_of ''1234567890''), (str_of ''abc123'')]) \<longrightarrow>
      map number_of (fst (build_profiles clock' [(str_of ''12345''), (str_of ''1234567890''), (str_of ''abc123'')] url')) =
        [Some (VStr (str_of ''1234567890''))] \<and>
      snd (build_profiles clock' [(str_of ''12345''), (str_of ''1234567890''), (str_of ''abc123'')] url') =
        [Warning (str_of ''12345'') (TooShortNumber (str_of ''12345'')),
         Warning (str_of ''abc123'') (NonDigitNumber (str_of ''abc123''))])"
proof (intro conjI impI)
  assume "clock_in_range clock (length numbers)"
  then show "snd (build_profiles clock numbers url) =
        concat (map (\<lambda>raw. case validate_number raw of
                       Inr ident \<Rightarrow> []
                     | Inl e \<Rightarrow> [Warning raw e]) numbers)"
    by (simp add: build_profiles_in_range)
next
  assume c: "clock_in_range clock' (length [(str_of ''12345''), (str_of ''1234567890''), (str_of ''abc123'')])"
  show "map number_of (fst (build_profiles clock' [(str_of ''12345''), (str_of ''1234567890''), (str_of ''abc123'')] url')) =
        [Some (VStr (str_of ''1234567890''))]"
    unfolding build_profiles_in_range [OF c]
    by (simp add: enumerate_eq_zip validate_12345 validate_abc123 validate_1234567890_plain
        number_of_synthesize)
  show "snd (build_profiles clock' [(str_of ''12345''), (str_of ''1234567890''), (str_of ''abc123'')] url') =
        [Warning (str_of ''12345'') (TooShortNumber (str_of ''12345'')),
         Warning (str_of ''abc123'') (NonDigitNumber (str_of ''abc123''))]"
    unfolding build_profiles_in_range [OF c]
    by (simp add: validate_12345 validate_abc123 validate_1234567890_plain)
qed

theorem build_profiles_logs_failures_witness:
  "clock_in_range (\<lambda>i. 63840918645123456) (length [(str_of ''12345''), (str_of ''1234567890''), (str_of ''abc123'')]) \<and>
   map number_of (fst (build_profiles (\<lambda>i. 63840918645123456)
       [(str_of ''12345''), (str_of ''1234567890''), (str_of ''abc123'')] (str_of ''https://cdn.example.com/whatsapp/avatars/''))) =
     [Some (VStr (str_of ''1234567890''))] \<and>
   snd (build_profiles (\<lambda>i. 63840918645123456)
       [(str_of ''12345''), (str_of ''1234567890''), (str_of ''abc123'')] (str_of ''https://cdn.example.com/whatsapp/avatars/'')) =
     [Warning (str_of ''12345'') (TooShortNumber (str_of ''12345'')),
      Warning (str_of ''abc123'') (NonDigitNumber (str_of ''abc123''))]"
  using build_profiles_logs_failures [of "\<lambda>i. 63840918645123456"
      "[(str_of ''12345''), (str_of ''1234567890''), (str_of ''abc123'')]" "(str_of ''https://cdn.example.com/whatsapp/avatars/'')"
      "\<lambda>i. 63840918645123456" "(str_of ''https://cdn.example.com/whatsapp/avatars/'')"]
  by (simp add: reading_in_range_def day_us_def MAXORDINAL_def validate_12345 validate_abc123
      validate_1234567890_plain)

section \<open>Properties of the export entry point\<close>

lemma lower_eval: "lower ''JSON'' = ''json''" "lower ''pdf'' = ''pdf''" "lower ''PDF'' = ''pdf''"
  "lower ''excel'' = ''excel''" "lower ''.xlsx'' = ''.xlsx''" "lower ''.txt'' = ''.txt''"
  "lower ''CSV'' = ''csv''" "lower ''json'' = ''json''"
  by (simp_all add: lower_def lower_char_def code_def char_of_eq_iff)

lemma lower_char_idem: "lower_char (lower_char c) = lower_char c"
proof -
  have "code (char_of (code c + 32)) = (code c + 32) mod 256"
    by (simp add: code_def)
  moreover have "code c < 256"
    by (simp add: code_def)
  ultimately show ?thesis
    unfolding lower_char_def by (auto simp: mod_if)
qed

lemma lower_idem: "lower (lower s) = lower s"
  by (simp add: lower_def lower_char_idem)

lemma supported_lower: "f \<in> SUPPORTED_FORMATS \<Longrightarrow> lower f = f"
  using lower_eval by (auto simp: SUPPORTED_FORMATS_def lower_def lower_char_def code_def)

text \<open>
  C8, amended. For every batch and destination, an export with a format name whose
  lower-case form is outside the set of the five supported names fails with
  \<open>UnsupportedFormat\<close> and leaves the system as it was: no directory is created, no file
  is written or changed.
\<close>

theorem export_profiles_unsupported:
  "lower fmt \<notin> SUPPORTED_FORMATS \<Longrightarrow>
   export_profiles records output_path fmt sys = (Inl (UnsupportedFormat fmt), sys)"
  by (simp add: export_profiles_def Let_def)

theorem export_profiles_unsupported_witness:
  "lower ''pdf'' \<notin> SUPPORTED_FORMATS \<and>
   export_profiles [[(''number'', VStr ''1234567890'')]] \<lparr>root = [], parts = [''out'', ''profiles.pdf'']\<rparr>
     ''pdf'' \<lparr>dirs = {\<lparr>root = [], parts = []\<rparr>}, files = (\<lambda>p. None), has_openpyxl = True\<rparr> =
   (Inl (UnsupportedFormat ''pdf''),
    \<lparr>dirs = {\<lparr>root = [], parts = []\<rparr>}, files = (\<lambda>p. None), has_openpyxl = True\<rparr>)"
proof -
  have h: "lower ''pdf'' \<notin> SUPPORTED_FORMATS"
    by (simp add: lower_eval SUPPORTED_FORMATS_def)
  from export_profiles_unsupported [OF h] h show ?thesis by simp
qed

text \<open>
  C8, as the specification states it, fails: \<open>JSON\<close> is a format name outside the closed
  set, and the export with it succeeds, creates the directory \<open>out\<close> and writes the file.
\<close>

theorem export_profiles_upper_case_accepted:
  "''JSON'' \<notin> SUPPORTED_FORMATS \<and>
   fst (export_profiles [] \<lparr>root = [], parts = [''out'', ''profiles.json'']\<rparr> ''JSON''
     \<lparr>dirs = {\<lparr>root = [], parts = []\<rparr>}, files = (\<lambda>p. None), has_openpyxl = True\<rparr>) = Inr () \<and>
   \<lparr>root = [], parts = [''out'']\<rparr> \<in>
     dirs (snd (export_profiles [] \<lparr>root = [], parts = [''out'', ''profiles.json'']\<rparr> ''JSON''
     \<lparr>dirs = {\<lparr>root = [], parts = []\<rparr>}, files = (\<lambda>p. None), has_openpyxl = True\<rparr>)) \<and>
   files (snd (export_profiles [] \<lparr>root = [], parts = [''out'', ''profiles.json'']\<rparr> ''JSON''
     \<lparr>dirs = {\<lparr>root = [], parts = []\<rparr>}, files = (\<lambda>p. None), has_openpyxl = True\<rparr>))
     \<lparr>root = [], parts = [''out'', ''profiles.json'']\<rparr> = Some (Text ''[]'')"
  by (simp add: export_profiles_def Let_def lower_eval SUPPORTED_FORMATS_def export_json_def
      ensure_parent_dir_def exists_def path_parent_def mkdir_parents_def ancestors_def
      open_write_def write_file_def json_dumps_def)

lemma name_suffix_xlsx:
  assumes "stem \<noteq> []"
  shows "name_suffix (stem @ ''.xlsx'') = ''.xlsx''"
proof -
  have "rfind_dot (stem @ ''.xlsx'') = int (length stem)"
    by (simp add: rfind_dot_def)
  with assms show ?thesis
    by (simp add: name_suffix_def Let_def)
qed

lemma rfind_dot_bound: "rfind_dot n < int (length n)"
  by (simp add: rfind_dot_def)

lemma stem_nonempty:
  assumes "n \<noteq> []"
  shows "take (length n - length (name_suffix n)) n \<noteq> []"
proof (cases "name_suffix n = []")
  case True
  with assms show ?thesis by simp
next
  case False
  then have i: "0 < rfind_dot n" "rfind_dot n < int (length n) - 1"
    and s: "name_suffix n = drop (nat (rfind_dot n)) n"
    by (simp_all add: name_suffix_def Let_def split: if_splits)
  from i have "length n - length (name_suffix n) = nat (rfind_dot n)"
    unfolding s by simp
  with i assms show ?thesis by simp
qed

lemma with_suffix_xlsx:
  assumes "path_name p \<noteq> []"
  shows "\<exists>q. with_suffix p ''.xlsx'' = Inr q \<and> path_suffix q = ''.xlsx'' \<and>
             path_parent q = path_parent p \<and> root q = root p"
proof -
  define n where "n = path_name p"
  define stem where "stem = take (length n - length (name_suffix n)) n"
  define q where "q = p\<lparr>parts := butlast (parts p) @ [stem @ ''.xlsx'']\<rparr>"
  from assms have ne: "n \<noteq> []" by (simp add: n_def)
  then have st: "stem \<noteq> []" unfolding stem_def by (rule stem_nonempty)
  have w: "with_suffix p ''.xlsx'' = Inr q"
    using ne by (simp add: with_suffix_def Let_def q_def stem_def n_def)
  have "path_name q = stem @ ''.xlsx''"
    by (simp add: path_name_def q_def)
  then have s: "path_suffix q = ''.xlsx''"
    by (simp add: path_suffix_def name_suffix_xlsx [OF st])
  have "path_parent q = path_parent p" "root q = root p"
    by (simp_all add: path_parent_def q_def)
  with w s show ?thesis by blast
qed

lemma export_excel_success:
  assumes "export_excel records q sys = (Inr (), sys')"
  shows "\<exists>sheet. append_rows (excel_rows records) = Inr sheet \<and>
           files sys' q = Some (Workbook ''Profiles'' sheet) \<and>
           (\<forall>r. r \<noteq> q \<longrightarrow> files sys' r = files sys r)"
  using assms
  by (auto simp: export_excel_def ensure_parent_dir_def mkdir_parents_def open_write_def
      write_file_def split: if_splits prod.splits sum.splits)

lemma bind_value_legal: "legal_cell v \<Longrightarrow> bind_value v = Inr v"
  by (cases v) (simp_all add: check_string_def)

lemma append_row_legal: "list_all legal_cell row \<Longrightarrow> append_row row = Inr row"
  by (induction row) (simp_all add: bind_value_legal)

lemma append_rows_legal: "list_all (list_all legal_cell) rows \<Longrightarrow> append_rows rows = Inr rows"
  by (induction rows) (simp_all add: append_row_legal)

lemma excel_supported: "lower ''excel'' \<in> SUPPORTED_FORMATS"
  by (simp add: lower_eval SUPPORTED_FORMATS_def)

lemma export_profiles_excel:
  "export_profiles records p ''excel'' sys =
     (if lower (path_suffix p) \<noteq> ''.xlsx''
      then (case with_suffix p ''.xlsx'' of
              Inl e \<Rightarrow> (Inl e, sys)
            | Inr q \<Rightarrow> export_excel records q sys)
      else export_excel records p sys)"
  by (simp add: export_profiles_def Let_def lower_eval SUPPORTED_FORMATS_def)

text \<open>
  C9, as the specification states it, fails for a destination with no name: the path
  \<open>.\<close> has no suffix, and the export with the format \<open>excel\<close> raises the \<open>ValueError\<close>
  of \<open>with_suffix\<close> instead of writing at a rewritten path.
\<close>

theorem export_profiles_excel_empty_name:
  "lower (path_suffix \<lparr>root = [], parts = []\<rparr>) \<noteq> ''.xlsx'' \<and>
   export_profiles [[(''number'', VStr ''1'')]] \<lparr>root = [], parts = []\<rparr> ''excel''
     \<lparr>dirs = {\<lparr>root = [], parts = []\<rparr>}, files = (\<lambda>p. None), has_openpyxl = True\<rparr> =
   (Inl EmptyName,
    \<lparr>dirs = {\<lparr>root = [], parts = []\<rparr>}, files = (\<lambda>p. None), has_openpyxl = True\<rparr>)"
  by (simp add: export_profiles_excel path_suffix_def path_name_def name_suffix_def rfind_dot_def
      with_suffix_def lower_def)

text \<open>
  C9, amended. With the format \<open>excel\<close>, a destination that has a name and whose suffix,
  in lower case, is not \<open>.xlsx\<close> is replaced, before the encoder runs, by the path of the
  same parent whose suffix is \<open>.xlsx\<close>; a destination with that suffix is kept. When the
  encoder succeeds, it has written the workbook at the path it was given and changed no
  other file. So, in a directory where \<open>out.xlsx\<close> can be written, an export to \<open>out.txt\<close>
  whose cells the worksheet accepts writes \<open>out.xlsx\<close> and leaves \<open>out.txt\<close> as it was;
  the cells are the rows of the records themselves when every cell is legal. An export
  with a cell that the worksheet refuses fails with the error of that cell and writes no
  file.
\<close>

theorem export_profiles_excel_suffix:
  "(lower (path_suffix p) \<noteq> ''.xlsx'' \<and> path_name p \<noteq> [] \<longrightarrow>
      (\<exists>q. with_suffix p ''.xlsx'' = Inr q \<and> path_suffix q = ''.xlsx'' \<and>
            path_parent q = path_parent p \<and> q \<noteq> p \<and>
            export_profiles records p ''excel'' sys = export_excel records q sys)) \<and>
   (lower (path_suffix p') = ''.xlsx'' \<longrightarrow>
      export_profiles records p' ''excel'' sys = export_excel records p' sys) \<and>
   (export_excel records q' sys = (Inr (), sys') \<longrightarrow>
      (\<exists>sheet. append_rows (excel_rows records) = Inr sheet \<and>
         files sys' q' = Some (Workbook ''Profiles'' sheet)) \<and>
      (\<forall>r. r \<noteq> q' \<longrightarrow> files sys' r = files sys r)) \<and>
   (has_openpyxl sys \<and> \<lparr>root = [], parts = []\<rparr> \<in> dirs sys \<and>
    \<lparr>root = [], parts = [''out.xlsx'']\<rparr> \<notin> dirs sys \<and>
    append_rows (excel_rows records) = Inr cells \<longrightarrow>
      fst (export_profiles records \<lparr>root = [], parts = [''out.txt'']\<rparr> ''excel'' sys) = Inr () \<and>
      files (snd (export_profiles records \<lparr>root = [], parts = [''out.txt'']\<rparr> ''excel'' sys))
        \<lparr>root = [], parts = [''out.xlsx'']\<rparr> = Some (Workbook ''Profiles'' cells) \<and>
      files (snd (export_profiles records \<lparr>root = [], parts = [''out.txt'']\<rparr> ''excel'' sys))
        \<lparr>root = [], parts = [''out.txt'']\<rparr> = files sys \<lparr>root = [], parts = [''out.txt'']\<rparr>) \<and>
   (list_all (list_all legal_cell) (excel_rows records) \<longrightarrow>
      append_rows (excel_rows records) = Inr (excel_rows records)) \<and>
   (has_openpyxl sys \<and> \<lparr>root = [], parts = []\<rparr> \<in> dirs sys \<and>
    append_rows (excel_rows bad) = Inl e \<longrightarrow>
      export_profiles bad \<lparr>root = [], parts = [''out.txt'']\<rparr> ''excel'' sys = (Inl e, sys))"
proof (intro conjI impI)
  assume a: "lower (path_suffix p) \<noteq> ''.xlsx'' \<and> path_name p \<noteq> []"
  then obtain q where q: "with_suffix p ''.xlsx'' = Inr q" "path_suffix q = ''.xlsx''"
      "path_parent q = path_parent p"
    using with_suffix_xlsx [of p] by blast
  from a q(2) have "q \<noteq> p" by (auto simp: lower_eval)
  moreover from a q(1) have "export_profiles records p ''excel'' sys = export_excel records q sys"
    by (simp add: export_profiles_excel)
  ultimately show "\<exists>q. with_suffix p ''.xlsx'' = Inr q \<and> path_suffix q = ''.xlsx'' \<and>
            path_parent q = path_parent p \<and> q \<noteq> p \<and>
            export_profiles records p ''excel'' sys = export_excel records q sys"
    using q by blast
next
  assume "lower (path_suffix p') = ''.xlsx''"
  then show "export_profiles records p' ''excel'' sys = export_excel records p' sys"
    by (simp add: export_profiles_excel)
next
  assume "export_excel records q' sys = (Inr (), sys')"
  from export_excel_success [OF this]
  show "\<exists>sheet. append_rows (excel_rows records) = Inr sheet \<and>
         files sys' q' = Some (Workbook ''Profiles'' sheet)"
    and "\<forall>r. r \<noteq> q' \<longrightarrow> files sys' r = files sys r"
    by blast+
next
  assume h: "has_openpyxl sys \<and> \<lparr>root = [], parts = []\<rparr> \<in> dirs sys \<and>
    \<lparr>root = [], parts = [''out.xlsx'']\<rparr> \<notin> dirs sys \<and>
    append_rows (excel_rows records) = Inr cells"
  have e: "export_profiles records \<lparr>root = [], parts = [''out.txt'']\<rparr> ''excel'' sys =
        (Inr (), sys\<lparr>files := (files sys)(\<lparr>root = [], parts = [''out.xlsx'']\<rparr> \<mapsto>
            Workbook ''Profiles'' cells)\<rparr>)"
    using h
    by (simp add: export_profiles_excel path_suffix_def path_name_def name_suffix_def
        rfind_dot_def lower_eval with_suffix_def export_excel_def ensure_parent_dir_def
        exists_def path_parent_def open_write_def write_file_def)
  show "fst (export_profiles records \<lparr>root = [], parts = [''out.txt'']\<rparr> ''excel'' sys) = Inr ()"
    by (simp add: e)
  show "files (snd (export_profiles records \<lparr>root = [], parts = [''out.txt'']\<rparr> ''excel'' sys))
        \<lparr>root = [], parts = [''out.xlsx'']\<rparr> = Some (Workbook ''Profiles'' cells)"
    by (simp add: e)
  show "files (snd (export_profiles records \<lparr>root = [], parts = [''out.txt'']\<rparr> ''excel'' sys))
        \<lparr>root = [], parts = [''out.txt'']\<rparr> = files sys \<lparr>root = [], parts = [''out.txt'']\<rparr>"
    by (simp add: e)
next
  assume "list_all (list_all legal_cell) (excel_rows records)"
  then show "append_rows (excel_rows records) = Inr (excel_rows records)"
    by (rule append_rows_legal)
next
  assume h: "has_openpyxl sys \<and> \<lparr>root = [], parts = []\<rparr> \<in> dirs sys \<and>
    append_rows (excel_rows bad) = Inl e"
  then show "export_profiles bad \<lparr>root = [], parts = [''out.txt'']\<rparr> ''excel'' sys = (Inl e, sys)"
    by (simp add: export_profiles_excel path_suffix_def path_name_def name_suffix_def
        rfind_dot_def lower_eval with_suffix_def export_excel_def ensure_parent_dir_def
        exists_def path_parent_def)
qed

lemmas path_eval = path_suffix_def path_name_def name_suffix_def rfind_dot_def with_suffix_def
  path_parent_def

lemmas fs_eval = ensure_parent_dir_def exists_def mkdir_parents_def ancestors_def open_write_def
  write_file_def

lemmas excel_eval = export_excel_def excel_rows_def get_fieldnames_def keys_def get_or_empty_def
  check_string_def illegal_character_def code_def

theorem export_profiles_excel_suffix_witness:
  "lower (path_suffix \<lparr>root = [], parts = [''out.txt'']\<rparr>) \<noteq> ''.xlsx'' \<and>
   path_name \<lparr>root = [], parts = [''out.txt'']\<rparr> \<noteq> [] \<and>
   with_suffix \<lparr>root = [], parts = [''out.txt'']\<rparr> ''.xlsx'' = Inr \<lparr>root = [], parts = [''out.xlsx'']\<rparr> \<and>
   lower (path_suffix \<lparr>root = [], parts = [''out.xlsx'']\<rparr>) = ''.xlsx'' \<and>
   append_rows (excel_rows [[(''number'', VStr ''1'')]]) = Inr [[VStr ''number''], [VStr ''1'']] \<and>
   fst (export_profiles [[(''number'', VStr ''1'')]] \<lparr>root = [], parts = [''out.txt'']\<rparr> ''excel''
     \<lparr>dirs = {\<lparr>root = [], parts = []\<rparr>}, files = (\<lambda>p. None), has_openpyxl = True\<rparr>) = Inr () \<and>
   files (snd (export_profiles [[(''number'', VStr ''1'')]] \<lparr>root = [], parts = [''out.txt'']\<rparr> ''excel''
     \<lparr>dirs = {\<lparr>root = [], parts = []\<rparr>}, files = (\<lambda>p. None), has_openpyxl = True\<rparr>))
     \<lparr>root = [], parts = [''out.xlsx'']\<rparr> = Some (Workbook ''Profiles'' [[VStr ''number''], [VStr ''1'']]) \<and>
   files (snd (export_profiles [[(''number'', VStr ''1'')]] \<lparr>root = [], parts = [''out.txt'']\<rparr> ''excel''
     \<lparr>dirs = {\<lparr>root = [], parts = []\<rparr>}, files = (\<lambda>p. None), has_openpyxl = True\<rparr>))
     \<lparr>root = [], parts = [''out.txt'']\<rparr> = None \<and>
   fst (export_profiles [[(''number'', VStr ''1'')]] \<lparr>root = [], parts = [''out.xlsx'']\<rparr> ''excel''
     \<lparr>dirs = {\<lparr>root = [], parts = []\<rparr>}, files = (\<lambda>p. None), has_openpyxl = True\<rparr>) = Inr () \<and>
   files (snd (export_profiles [[(''number'', VStr ''1'')]] \<lparr>root = [], parts = [''out.xlsx'']\<rparr> ''excel''
     \<lparr>dirs = {\<lparr>root = [], parts = []\<rparr>}, files = (\<lambda>p. None), has_openpyxl = True\<rparr>))
     \<lparr>root = [], parts = [''out.xlsx'']\<rparr> = Some (Workbook ''Profiles'' [[VStr ''number''], [VStr ''1'']]) \<and>
   append_rows (excel_rows [[(''number'', VStr [CHR 0x01])]]) = Inl IllegalCharacterError \<and>
   export_profiles [[(''number'', VStr [CHR 0x01])]] \<lparr>root = [], parts = [''out.txt'']\<rparr> ''excel''
     \<lparr>dirs = {\<lparr>root = [], parts = []\<rparr>}, files = (\<lambda>p. None), has_openpyxl = True\<rparr> =
   (Inl IllegalCharacterError,
    \<lparr>dirs = {\<lparr>root = [], parts = []\<rparr>}, files = (\<lambda>p. None), has_openpyxl = True\<rparr>)"
  using export_profiles_excel_suffix [where p = "\<lparr>root = [], parts = [''out.txt'']\<rparr>"
      and p' = "\<lparr>root = [], parts = [''out.xlsx'']\<rparr>"
      and q' = "\<lparr>root = [], parts = [''out.xlsx'']\<rparr>"
      and records = "[[(''number'', VStr ''1'')]]"
      and cells = "[[VStr ''number''], [VStr ''1'']]"
      and bad = "[[(''number'', VStr [CHR 0x01])]]"
      and e = IllegalCharacterError
      and sys = "\<lparr>dirs = {\<lparr>root = [], parts = []\<rparr>}, files = (\<lambda>p. None), has_openpyxl = True\<rparr>"
      and sys' = "snd (export_excel [[(''number'', VStr ''1'')]] \<lparr>root = [], parts = [''out.xlsx'']\<rparr>
         \<lparr>dirs = {\<lparr>root = [], parts = []\<rparr>}, files = (\<lambda>p. None), has_openpyxl = True\<rparr>)"]
  by (simp add: path_eval lower_eval fs_eval excel_eval)

text \<open>
  C10. The entry point selects the format by the lower-case form of its name: the export
  with \<open>f\<close> is the export with \<open>lower f\<close> when that form is supported, and fails with
  \<open>UnsupportedFormat\<close>, the system unchanged, when it is not. The driver lowers the
  configured default format and checks the lowered name.
\<close>

theorem export_profiles_case_insensitive:
  "(lower f \<in> SUPPORTED_FORMATS \<longrightarrow>
      export_profiles records p f sys = export_profiles records p (lower f) sys) \<and>
   (lower g \<notin> SUPPORTED_FORMATS \<longrightarrow>
      export_profiles records p g sys = (Inl (UnsupportedFormat g), sys) \<and>
      export_profiles records p (lower g) sys = (Inl (UnsupportedFormat (lower g)), sys)) \<and>
   main_output_format None settings =
     lower (py_str (case settings ''default_output_format'' of Some v \<Rightarrow> v | None \<Rightarrow> VStr ''json'')) \<and>
   (main_format_check None settings = None) =
     (lower (py_str (case settings ''default_output_format'' of Some v \<Rightarrow> v | None \<Rightarrow> VStr ''json''))
        \<in> SUPPORTED_FORMATS)"
proof (intro conjI impI)
  assume "lower f \<in> SUPPORTED_FORMATS"
  then show "export_profiles records p f sys = export_profiles records p (lower f) sys"
    by (simp add: export_profiles_def Let_def lower_idem)
next
  assume "lower g \<notin> SUPPORTED_FORMATS"
  then show "export_profiles records p g sys = (Inl (UnsupportedFormat g), sys)"
    and "export_profiles records p (lower g) sys = (Inl (UnsupportedFormat (lower g)), sys)"
    by (simp_all add: export_profiles_def Let_def lower_idem)
next
  show "main_output_format None settings =
     lower (py_str (case settings ''default_output_format'' of Some v \<Rightarrow> v | None \<Rightarrow> VStr ''json''))"
    by (simp add: main_output_format_def)
  show "(main_format_check None settings = None) =
     (lower (py_str (case settings ''default_output_format'' of Some v \<Rightarrow> v | None \<Rightarrow> VStr ''json''))
        \<in> SUPPORTED_FORMATS)"
    by (simp add: main_format_check_def main_output_format_def)
qed

theorem export_profiles_case_insensitive_witness:
  "lower ''JSON'' \<in> SUPPORTED_FORMATS \<and>
   export_profiles [] \<lparr>root = [], parts = [''out.json'']\<rparr> ''JSON''
     \<lparr>dirs = {\<lparr>root = [], parts = []\<rparr>}, files = (\<lambda>p. None), has_openpyxl = True\<rparr> =
   export_profiles [] \<lparr>root = [], parts = [''out.json'']\<rparr> (lower ''JSON'')
     \<lparr>dirs = {\<lparr>root = [], parts = []\<rparr>}, files = (\<lambda>p. None), has_openpyxl = True\<rparr> \<and>
   lower ''PDF'' \<notin> SUPPORTED_FORMATS \<and>
   export_profiles [] \<lparr>root = [], parts = [''out.json'']\<rparr> ''PDF''
     \<lparr>dirs = {\<lparr>root = [], parts = []\<rparr>}, files = (\<lambda>p. None), has_openpyxl = True\<rparr> =
   (Inl (UnsupportedFormat ''PDF''),
    \<lparr>dirs = {\<lparr>root = [], parts = []\<rparr>}, files = (\<lambda>p. None), has_openpyxl = True\<rparr>) \<and>
   main_output_format None [''default_output_format'' \<mapsto> VStr ''CSV''] = ''csv'' \<and>
   main_format_check None [''default_output_format'' \<mapsto> VStr ''CSV''] = None"
proof -
  note t = export_profiles_case_insensitive [where f = "''JSON''" and g = "''PDF''" and records = "[]"
      and p = "\<lparr>root = [], parts = [''out.json'']\<rparr>"
      and settings = "[''default_output_format'' \<mapsto> VStr ''CSV'']"
      and sys = "\<lparr>dirs = {\<lparr>root = [], parts = []\<rparr>}, files = (\<lambda>p. None), has_openpyxl = True\<rparr>"]
  have s1: "lower ''JSON'' \<in> SUPPORTED_FORMATS"
    by (simp add: lower_eval SUPPORTED_FORMATS_def)
  have s2: "lower ''PDF'' \<notin> SUPPORTED_FORMATS"
    by (simp add: lower_eval SUPPORTED_FORMATS_def)
  have d: "lower (py_str (case [''default_output_format'' \<mapsto> VStr ''CSV''] ''default_output_format'' of
             Some v \<Rightarrow> v | None \<Rightarrow> VStr ''json'')) = ''csv''"
    by (simp add: lower_eval)
  have s3: "''csv'' \<in> SUPPORTED_FORMATS"
    by (simp add: SUPPORTED_FORMATS_def)
  from t s1 have e1: "export_profiles [] \<lparr>root = [], parts = [''out.json'']\<rparr> ''JSON''
     \<lparr>dirs = {\<lparr>root = [], parts = []\<rparr>}, files = (\<lambda>p. None), has_openpyxl = True\<rparr> =
   export_profiles [] \<lparr>root = [], parts = [''out.json'']\<rparr> (lower ''JSON'')
     \<lparr>dirs = {\<lparr>root = [], parts = []\<rparr>}, files = (\<lambda>p. None), has_openpyxl = True\<rparr>"
    by blast
  from t s2 have e2: "export_profiles [] \<lparr>root = [], parts = [''out.json'']\<rparr> ''PDF''
     \<lparr>dirs = {\<lparr>root = [], parts = []\<rparr>}, files = (\<lambda>p. None), has_openpyxl = True\<rparr> =
   (Inl (UnsupportedFormat ''PDF''),
    \<lparr>dirs = {\<lparr>root = [], parts = []\<rparr>}, files = (\<lambda>p. None), has_openpyxl = True\<rparr>)"
    by blast
  from t d have m1: "main_output_format None [''default_output_format'' \<mapsto> VStr ''CSV''] = ''csv''"
    by metis
  from t d s3 have m2: "main_format_check None [''default_output_format'' \<mapsto> VStr ''CSV''] = None"
    by metis
  from s1 e1 s2 e2 m1 m2 show ?thesis by blast
qed

section \<open>Properties of the encoders\<close>

lemma remdups_skip: "k \<in> set ys \<Longrightarrow> remdups (xs @ k # ys) = remdups (xs @ ys)"
  by (induction xs) auto

lemma remdups_append_remdups: "remdups (xs @ remdups ys) = remdups (xs @ ys)"
  by (induction xs) auto

lemma first_seen_skip:
  "k \<in> set acc \<Longrightarrow> rev (remdups (rev (acc @ k # ks))) = rev (remdups (rev (acc @ ks)))"
  by (simp add: remdups_skip)

lemma add_keys_first_seen:
  "distinct acc \<Longrightarrow> add_keys acc ks = rev (remdups (rev (acc @ ks))) \<and> distinct (add_keys acc ks)"
proof (induction ks arbitrary: acc)
  case Nil
  then show ?case by (simp add: distinct_remdups_id)
next
  case (Cons k ks)
  show ?case
  proof (cases "k \<in> set acc")
    case True
    with Cons.IH [OF Cons.prems] show ?thesis
      by (simp add: remdups_skip)
  next
    case False
    with Cons.prems have "distinct (acc @ [k])" by simp
    from Cons.IH [OF this] False show ?thesis by simp
  qed
qed

lemma get_fieldnames_loop_first_seen:
  "distinct acc \<Longrightarrow>
   get_fieldnames_loop acc records = rev (remdups (rev (acc @ concat (map keys records))))"
proof (induction records arbitrary: acc)
  case Nil
  then show ?case by (simp add: distinct_remdups_id)
next
  case (Cons r rs)
  from add_keys_first_seen [OF Cons.prems, of "keys r"]
  have a: "add_keys acc (keys r) = rev (remdups (rev (acc @ keys r)))"
    and d: "distinct (add_keys acc (keys r))" by simp_all
  have "get_fieldnames_loop acc (r # rs) =
        rev (remdups (rev (add_keys acc (keys r) @ concat (map keys rs))))"
    by (simp add: Cons.IH [OF d])
  also have "\<dots> = rev (remdups (rev (acc @ concat (map keys (r # rs)))))"
    unfolding a
    by (simp add: remdups_append_remdups)
  finally show ?case .
qed

lemma get_fieldnames_first_seen:
  "get_fieldnames records = rev (remdups (rev (concat (map keys records))))"
  by (simp add: get_fieldnames_def get_fieldnames_loop_first_seen)

lemma set_get_fieldnames: "set (get_fieldnames records) = (\<Union>r \<in> set records. set (keys r))"
  by (simp add: get_fieldnames_first_seen)

lemma dict_to_list_ok:
  "set (keys r) \<subseteq> set fieldnames \<Longrightarrow>
   dict_to_list fieldnames r = Inr (map (\<lambda>k. csv_cell (get_or_empty r k)) fieldnames)"
  by (auto simp: dict_to_list_def list_ex_iff)

lemma write_rows_ok:
  "(\<Union>r \<in> set records. set (keys r)) \<subseteq> set fieldnames \<Longrightarrow>
   write_rows fieldnames records written =
     (Inr (), written @ concat (map (\<lambda>r. csv_line (map (\<lambda>k. csv_cell (get_or_empty r k)) fieldnames))
                          records))"
proof (induction records arbitrary: written)
  case Nil
  show ?case by simp
next
  case (Cons r rs)
  then have "set (keys r) \<subseteq> set fieldnames"
    and rest: "(\<Union>r \<in> set rs. set (keys r)) \<subseteq> set fieldnames" by auto
  then show ?case
    by (simp add: dict_to_list_ok Cons.IH [OF rest])
qed


lemma export_csv_success:
  assumes "export_csv records p sys = (Inr (), sys')"
  shows "files sys' p = Some (Text (csv_text records))"
proof -
  have rows: "write_rows (get_fieldnames records) records (csv_line (get_fieldnames records)) =
      (Inr (), csv_text records)"
    by (simp add: write_rows_ok set_get_fieldnames csv_text_def)
  have empty: "records = [] \<Longrightarrow> get_fieldnames records = []"
    by (simp add: get_fieldnames_def)
  have "write_rows (if records \<noteq> [] then get_fieldnames records else []) records
          (csv_line (if records \<noteq> [] then get_fieldnames records else [])) =
        (Inr (), csv_text records)"
    using rows empty by (cases "records = []") simp_all
  with assms show ?thesis
    by (auto simp: export_csv_def Let_def write_file_def split: prod.splits sum.splits)
qed

lemma missing_cell_empty: "map_of r k = None \<Longrightarrow> csv_cell (get_or_empty r k) = []"
  by (simp add: get_or_empty_def csv_cell_def)

lemmas export_eval = get_fieldnames_def keys_def get_or_empty_def csv_cell_def csv_line_def
  csv_quote_def crlf_def nl_def excel_rows_def xml_tree_def xml_text_def html_headers_def
  html_lines_def html_cell_def escape_def

text \<open>
  C1, amended. The field names of a batch are its keys in the order in which they are
  first seen across the whole sequence. The CSV and the spreadsheet exporters use this
  order for every record: a CSV export that completes writes the line of the field names
  and one line of cells per record, and a record with no value for a field has the empty
  cell there, so for two records of which only the second has \<open>about\<close>, both lines have
  the column \<open>about\<close>, empty in the first. The XML exporter gives each \<open>profile\<close> element
  the fields of its own record, in the order of the record.
\<close>

theorem union_field_order:
  "get_fieldnames records = rev (remdups (rev (concat (map keys records)))) \<and>
   (export_csv records p sys = (Inr (), sys') \<longrightarrow> files sys' p = Some (Text (csv_text records))) \<and>
   (map_of r k = None \<longrightarrow> get_or_empty r k = VStr [] \<and> csv_cell (get_or_empty r k) = []) \<and>
   (get_fieldnames records \<noteq> [] \<longrightarrow>
      excel_rows records =
        map VStr (get_fieldnames records)
        # map (\<lambda>r. map (get_or_empty r) (get_fieldnames records)) records) \<and>
   xml_tree records =
     Element ''profiles'' []
       (map (\<lambda>r. Element ''profile'' [] (map (\<lambda>(k, v). Element k (xml_text v) []) r)) records) \<and>
   csv_text [[(''number'', VStr ''111111''), (''is_registered'', VBool False)],
             [(''number'', VStr ''222222''), (''is_registered'', VBool True), (''about'', VStr ''hi'')]] =
     ''number,is_registered,about'' @ crlf @ ''111111,False,'' @ crlf @ ''222222,True,hi'' @ crlf"
proof (intro conjI impI)
  show "get_fieldnames records = rev (remdups (rev (concat (map keys records))))"
    by (rule get_fieldnames_first_seen)
next
  assume "export_csv records p sys = (Inr (), sys')"
  then show "files sys' p = Some (Text (csv_text records))"
    by (rule export_csv_success)
next
  assume "map_of r k = None"
  then show "get_or_empty r k = VStr []" and "csv_cell (get_or_empty r k) = []"
    by (simp_all add: get_or_empty_def csv_cell_def)
next
  assume ne: "get_fieldnames records \<noteq> []"
  then have "records \<noteq> []" by (auto simp: get_fieldnames_def)
  with ne show "excel_rows records =
        map VStr (get_fieldnames records)
        # map (\<lambda>r. map (get_or_empty r) (get_fieldnames records)) records"
    by (simp add: excel_rows_def Let_def)
next
  show "xml_tree records =
     Element ''profiles'' []
       (map (\<lambda>r. Element ''profile'' [] (map (\<lambda>(k, v). Element k (xml_text v) []) r)) records)"
    by (simp add: xml_tree_def)
next
  show "csv_text [[(''number'', VStr ''111111''), (''is_registered'', VBool False)],
             [(''number'', VStr ''222222''), (''is_registered'', VBool True), (''about'', VStr ''hi'')]] =
     ''number,is_registered,about'' @ crlf @ ''111111,False,'' @ crlf @ ''222222,True,hi'' @ crlf"
    by (simp add: csv_text_def export_eval)
qed

text \<open>
  C1, as the specification states it, fails. For two records of which only the second
  has \<open>about\<close>, the union order has \<open>about\<close>, but the HTML headers are the keys of the first
  record: no header and no cell of the page is for \<open>about\<close>. And the first \<open>profile\<close>
  element of the XML tree has no \<open>about\<close> child.
\<close>

theorem html_and_xml_ignore_union_order:
  "get_fieldnames [[(''number'', VStr ''111111''), (''is_registered'', VBool False)],
             [(''number'', VStr ''222222''), (''is_registered'', VBool True), (''about'', VStr ''hi'')]] =
     [''number'', ''is_registered'', ''about''] \<and>
   html_headers [[(''number'', VStr ''111111''), (''is_registered'', VBool False)],
             [(''number'', VStr ''222222''), (''is_registered'', VBool True), (''about'', VStr ''hi'')]] =
     [''number'', ''is_registered''] \<and>
   ''        <th>about</th>'' \<notin> set (html_lines
            [[(''number'', VStr ''111111''), (''is_registered'', VBool False)],
             [(''number'', VStr ''222222''), (''is_registered'', VBool True), (''about'', VStr ''hi'')]]) \<and>
   ''        <td>hi</td>'' \<notin> set (html_lines
            [[(''number'', VStr ''111111''), (''is_registered'', VBool False)],
             [(''number'', VStr ''222222''), (''is_registered'', VBool True), (''about'', VStr ''hi'')]]) \<and>
   xml_tree [[(''number'', VStr ''111111''), (''is_registered'', VBool False)],
             [(''number'', VStr ''222222''), (''is_registered'', VBool True), (''about'', VStr ''hi'')]] =
     Element ''profiles'' []
       [Element ''profile'' []
          [Element ''number'' ''111111'' [], Element ''is_registered'' ''False'' []],
        Element ''profile'' []
          [Element ''number'' ''222222'' [], Element ''is_registered'' ''True'' [],
           Element ''about'' ''hi'' []]]"
  by (simp add: export_eval)

theorem union_field_order_witness:
  "fst (export_csv [[(''number'', VStr ''111111''), (''is_registered'', VBool False)],
             [(''number'', VStr ''222222''), (''is_registered'', VBool True), (''about'', VStr ''hi'')]]
      \<lparr>root = [], parts = [''out.csv'']\<rparr>
      \<lparr>dirs = {\<lparr>root = [], parts = []\<rparr>}, files = (\<lambda>p. None), has_openpyxl = True\<rparr>) = Inr () \<and>
   files (snd (export_csv [[(''number'', VStr ''111111''), (''is_registered'', VBool False)],
             [(''number'', VStr ''222222''), (''is_registered'', VBool True), (''about'', VStr ''hi'')]]
      \<lparr>root = [], parts = [''out.csv'']\<rparr>
      \<lparr>dirs = {\<lparr>root = [], parts = []\<rparr>}, files = (\<lambda>p. None), has_openpyxl = True\<rparr>))
     \<lparr>root = [], parts = [''out.csv'']\<rparr> =
     Some (Text (''number,is_registered,about'' @ crlf @ ''111111,False,'' @ crlf
                 @ ''222222,True,hi'' @ crlf)) \<and>
   map_of [(''number'', VStr ''111111''), (''is_registered'', VBool False)] ''about'' = None \<and>
   csv_cell (get_or_empty [(''number'', VStr ''111111''), (''is_registered'', VBool False)] ''about'') = [] \<and>
   get_fieldnames [[(''number'', VStr ''111111''), (''is_registered'', VBool False)],
             [(''number'', VStr ''222222''), (''is_registered'', VBool True), (''about'', VStr ''hi'')]] \<noteq> [] \<and>
   excel_rows [[(''number'', VStr ''111111''), (''is_registered'', VBool False)],
             [(''number'', VStr ''222222''), (''is_registered'', VBool True), (''about'', VStr ''hi'')]] =
     [[VStr ''number'', VStr ''is_registered'', VStr ''about''],
      [VStr ''111111'', VBool False, VStr []],
      [VStr ''222222'', VBool True, VStr ''hi'']]"
proof -
  define recs where "recs = [[(''number'', VStr ''111111''), (''is_registered'', VBool False)],
             [(''number'', VStr ''222222''), (''is_registered'', VBool True), (''about'', VStr ''hi'')]]"
  define sys0 where
    "sys0 = \<lparr>dirs = {\<lparr>root = [], parts = []\<rparr>}, files = (\<lambda>p. None), has_openpyxl = True\<rparr>"
  define out where "out = \<lparr>root = [], parts = [''out.csv'']\<rparr>"
  note t = union_field_order [where records = recs and p = out and sys = sys0
      and sys' = "snd (export_csv recs out sys0)"
      and r = "[(''number'', VStr ''111111''), (''is_registered'', VBool False)]" and k = "''about''"]
  have f: "fst (export_csv recs out sys0) = Inr ()"
    by (simp add: export_csv_def Let_def recs_def sys0_def out_def ensure_parent_dir_def exists_def
        path_parent_def open_write_def write_file_def export_eval dict_to_list_def
        split: prod.splits)
  then have e: "export_csv recs out sys0 = (Inr (), snd (export_csv recs out sys0))"
    by (metis prod.collapse)
  have m: "map_of [(''number'', VStr ''111111''), (''is_registered'', VBool False)] ''about'' = None"
    by simp
  have g: "get_fieldnames recs = [''number'', ''is_registered'', ''about'']"
    by (simp add: recs_def export_eval)
  then have ne: "get_fieldnames recs \<noteq> []" by simp
  from t e have c1: "files (snd (export_csv recs out sys0)) out = Some (Text (csv_text recs))"
    by blast
  from t have c2: "csv_text recs =
     ''number,is_registered,about'' @ crlf @ ''111111,False,'' @ crlf @ ''222222,True,hi'' @ crlf"
    unfolding recs_def by blast
  from t m have c3:
    "csv_cell (get_or_empty [(''number'', VStr ''111111''), (''is_registered'', VBool False)] ''about'') = []"
    by blast
  from t ne have c4: "excel_rows recs =
        map VStr (get_fieldnames recs) # map (\<lambda>r. map (get_or_empty r) (get_fieldnames recs)) recs"
    by blast
  have c5: "excel_rows recs = [[VStr ''number'', VStr ''is_registered'', VStr ''about''],
      [VStr ''111111'', VBool False, VStr []],
      [VStr ''222222'', VBool True, VStr ''hi'']]"
    unfolding c4 g by (simp add: recs_def get_or_empty_def)
  from f c1 c2 m c3 ne c5 show ?thesis
    unfolding recs_def sys0_def out_def by simp
qed

end
